theory Spec2Isabelle
  imports Main "HOL-Library.Sublist"
begin

section \<open>The relational store\<close>

text \<open>
  The three tables the models query (\<open>users\<close>, \<open>lists\<close>, \<open>todos\<close>) are lists of rows.
  Column values of type INT are \<open>int\<close>, timestamps are milliseconds since the epoch.
  A row id is assigned from the table's AUTO_INCREMENT counter. String columns are
  compared for equality character by character (a binary collation).
\<close>

type_synonym timestamp = int

record user_row =
  u_id :: int
  u_name :: string
  u_email :: string
  u_password :: string
  u_created_at :: timestamp

record list_row =
  l_id :: int
  l_name :: string
  l_user_id :: int
  l_created_at :: timestamp
  l_updated_at :: "timestamp option"

record todo_row =
  t_id :: int
  t_name :: string
  t_list_id :: int
  t_completed :: bool
  t_created_at :: timestamp
  t_updated_at :: "timestamp option"

text \<open>One constructor per SQL statement that occurs in the models.\<close>

datatype sql =
    InsertList | DeleteList | UpdateList | SelectListsByUser | SelectListById
  | InsertUser | SelectUserByEmail
  | InsertTodo | DeleteTodo | UpdateTodo | SelectTodosByList | SelectTodoById

text \<open>
  Every call that leaves the process is recorded: a statement sent to the pool, a call of
  bcryptjs, a call of jsonwebtoken.
\<close>

datatype event = Sql sql | BcryptHash | BcryptCompare | JwtSign | JwtVerify

datatype js_error = DbError | JwtError | BindError | BcryptError

text \<open>
  The state a request runs in. \<open>faults\<close> is the schedule of storage failures: the next
  statement sent to the pool rejects when the head is \<open>True\<close> (an empty schedule never
  fails). \<open>entropy\<close> stands for the random source bcryptjs draws its salt from, \<open>clock\<close>
  for \<open>Date.now()\<close> and MySQL's \<open>NOW()\<close>.
\<close>

record world =
  users :: "user_row list"
  lists :: "list_row list"
  todos :: "todo_row list"
  next_user_id :: int
  next_list_id :: int
  next_todo_id :: int
  clock :: timestamp
  faults :: "bool list"
  entropy :: nat
  log :: "event list"

definition record_event :: "event \<Rightarrow> world \<Rightarrow> world" where
  "record_event e w = w\<lparr>log := log w @ [e]\<rparr>"

text \<open>\<open>db.execute\<close> / \<open>db.query\<close>: the statement is sent, and the promise rejects or not.\<close>

definition db_call :: "sql \<Rightarrow> world \<Rightarrow> bool \<times> world" where
  "db_call q w =
     (case faults w of
        [] \<Rightarrow> (True, record_event (Sql q) w)
      | f # fs \<Rightarrow> (\<not> f, record_event (Sql q) (w\<lparr>faults := fs\<rparr>)))"

section \<open>models/List.js\<close>

text \<open>Source: \<^verbatim>\<open>src/models/List.js\<close>.\<close>

definition list_matches :: "int \<Rightarrow> int \<Rightarrow> list_row \<Rightarrow> bool" where
  \<comment> \<open>\<open>WHERE id=? AND user_id=?\<close>\<close>
  "list_matches i userId l = (l_id l = i \<and> l_user_id l = userId)"

definition List_create :: "string \<Rightarrow> int \<Rightarrow> world \<Rightarrow> (js_error + int) \<times> world" where
  "List_create name userId w =
     (case db_call InsertList w of (ok, w1) \<Rightarrow>
        if ok then
          (Inr (next_list_id w1),
           w1\<lparr>lists := lists w1 @
                 [\<lparr>l_id = next_list_id w1, l_name = name, l_user_id = userId,
                   l_created_at = clock w1, l_updated_at = None\<rparr>],
              next_list_id := next_list_id w1 + 1\<rparr>)
        else (Inl DbError, w1))"

definition List_remove :: "int \<Rightarrow> int \<Rightarrow> world \<Rightarrow> (js_error + nat) \<times> world" where
  "List_remove i userId w =
     (case db_call DeleteList w of (ok, w1) \<Rightarrow>
        if ok then
          (Inr (length (filter (list_matches i userId) (lists w1))),
           w1\<lparr>lists := filter (\<lambda>l. \<not> list_matches i userId l) (lists w1)\<rparr>)
        else (Inl DbError, w1))"

text \<open>\<open>affectedRows\<close> of an UPDATE counts the rows the WHERE clause found.\<close>

definition List_update :: "string \<Rightarrow> int \<Rightarrow> int \<Rightarrow> world \<Rightarrow> (js_error + nat) \<times> world" where
  "List_update name i userId w =
     (case db_call UpdateList w of (ok, w1) \<Rightarrow>
        if ok then
          (Inr (length (filter (list_matches i userId) (lists w1))),
           w1\<lparr>lists := map (\<lambda>l. if list_matches i userId l
                                 then l\<lparr>l_name := name, l_updated_at := Some (clock w1)\<rparr>
                                 else l) (lists w1)\<rparr>)
        else (Inl DbError, w1))"

definition List_findAllByUserId :: "int \<Rightarrow> world \<Rightarrow> (js_error + list_row list) \<times> world" where
  "List_findAllByUserId userId w =
     (case db_call SelectListsByUser w of (ok, w1) \<Rightarrow>
        if ok then (Inr (filter (\<lambda>l. l_user_id l = userId) (lists w1)), w1)
        else (Inl DbError, w1))"

definition List_getListById :: "int \<Rightarrow> int \<Rightarrow> world \<Rightarrow> (js_error + list_row list) \<times> world" where
  "List_getListById i userId w =
     (case db_call SelectListById w of (ok, w1) \<Rightarrow>
        if ok then (Inr (filter (list_matches i userId) (lists w1)), w1)
        else (Inl DbError, w1))"

text \<open>The rows of the \<open>lists\<close> table that do not belong to user \<open>u\<close>.\<close>

definition foreign_lists :: "int \<Rightarrow> world \<Rightarrow> list_row list" where
  "foreign_lists u w = filter (\<lambda>l. l_user_id l \<noteq> u) (lists w)"

text \<open>The rows of the \<open>lists\<close> table that belong to user \<open>u\<close>.\<close>

definition own_lists :: "int \<Rightarrow> world \<Rightarrow> list_row list" where
  "own_lists u w = filter (\<lambda>l. l_user_id l = u) (lists w)"

text \<open>
  What AUTO_INCREMENT maintains: the ids of the table are distinct and below the counter.
\<close>

definition lists_wf :: "world \<Rightarrow> bool" where
  "lists_wf w =
     (distinct (map l_id (lists w)) \<and> list_all (\<lambda>l. l_id l < next_list_id w) (lists w))"

section \<open>models/User.js\<close>

text \<open>Source: \<^verbatim>\<open>src/unnamed/part_000\<close>.\<close>

text \<open>
  The libraries the repository calls are parameters of the model: bcryptjs (\<open>hash\<close> with
  a cost and the salt it draws, \<open>compare\<close>), jsonwebtoken (\<open>sign\<close> of a payload with a
  secret and the \<open>expiresIn\<close> option, \<open>verify\<close> of a token against a secret that may be
  \<open>undefined\<close>; both read the clock and may throw).
\<close>

record claims =
  c_id :: int
  c_email :: string

record libs =
  bcrypt_hash :: "string \<Rightarrow> nat \<Rightarrow> nat \<Rightarrow> string"
  bcrypt_compare :: "string \<Rightarrow> string \<Rightarrow> bool"
  jwt_sign :: "claims \<Rightarrow> string \<Rightarrow> string option \<Rightarrow> timestamp \<Rightarrow> js_error + string"
  jwt_verify :: "string \<Rightarrow> string option \<Rightarrow> timestamp \<Rightarrow> js_error + claims"

text \<open>
  The password a handler takes from the body need not be a string: it is \<open>None\<close> when the
  field is missing or holds another kind of value. bcryptjs checks its arguments first:
  \<open>hash\<close> and \<open>compare\<close> reject (\<open>Illegal arguments\<close>) when the password is not a
  string, before any salt is drawn.
\<close>

definition bcrypt_hash_call :: "libs \<Rightarrow> string option \<Rightarrow> nat \<Rightarrow> nat \<Rightarrow> js_error + string" where
  "bcrypt_hash_call L password rounds salt =
     (case password of
        None \<Rightarrow> Inl BcryptError
      | Some p \<Rightarrow> Inr (bcrypt_hash L p rounds salt))"

definition bcrypt_compare_call :: "libs \<Rightarrow> string option \<Rightarrow> string \<Rightarrow> js_error + bool" where
  "bcrypt_compare_call L password digest =
     (case password of
        None \<Rightarrow> Inl BcryptError
      | Some p \<Rightarrow> Inr (bcrypt_compare L p digest))"

definition User_create ::
  "libs \<Rightarrow> string \<Rightarrow> string \<Rightarrow> string option \<Rightarrow> world \<Rightarrow> (js_error + int) \<times> world" where
  "User_create L name email password w =
     (case bcrypt_hash_call L password 10 (entropy w) of
        Inl e \<Rightarrow> (Inl e, record_event BcryptHash w)
      | Inr hashedPassword \<Rightarrow>
          (let w0 = record_event BcryptHash (w\<lparr>entropy := entropy w + 1\<rparr>)
           in case db_call InsertUser w0 of (ok, w1) \<Rightarrow>
                if ok then
                  (Inr (next_user_id w1),
                   w1\<lparr>users := users w1 @
                         [\<lparr>u_id = next_user_id w1, u_name = name, u_email = email,
                           u_password = hashedPassword, u_created_at = clock w1\<rparr>],
                      next_user_id := next_user_id w1 + 1\<rparr>)
                else (Inl DbError, w1)))"

text \<open>
  The row \<open>User.create\<close> inserts when it is called in state \<open>w\<close> with a password that
  is a string.
\<close>

definition new_user :: "libs \<Rightarrow> string \<Rightarrow> string \<Rightarrow> string \<Rightarrow> world \<Rightarrow> user_row" where
  "new_user L name email password w =
     \<lparr>u_id = next_user_id w, u_name = name, u_email = email,
      u_password = bcrypt_hash L password 10 (entropy w), u_created_at = clock w\<rparr>"

text \<open>\<open>rows[0]\<close>: the first row found, or \<open>undefined\<close>.\<close>

definition User_findByEmail :: "string \<Rightarrow> world \<Rightarrow> (js_error + user_row option) \<times> world" where
  "User_findByEmail email w =
     (case db_call SelectUserByEmail w of (ok, w1) \<Rightarrow>
        if ok then
          (Inr (case filter (\<lambda>u. u_email u = email) (users w1) of
                  [] \<Rightarrow> None | r # _ \<Rightarrow> Some r), w1)
        else (Inl DbError, w1))"

section \<open>models/Todo.js\<close>

text \<open>Source: \<^verbatim>\<open>src/unnamed/part_001\<close>.\<close>

text \<open>\<open>completed\<close> is \<open>None\<close> when the caller leaves it out; the default is \<open>false\<close>.\<close>

definition Todo_create ::
  "string \<Rightarrow> int \<Rightarrow> bool option \<Rightarrow> world \<Rightarrow> (js_error + int) \<times> world" where
  "Todo_create name listId completed w =
     (case db_call InsertTodo w of (ok, w1) \<Rightarrow>
        if ok then
          (Inr (next_todo_id w1),
           w1\<lparr>todos := todos w1 @
                 [\<lparr>t_id = next_todo_id w1, t_name = name, t_list_id = listId,
                   t_completed = (case completed of None \<Rightarrow> False | Some c \<Rightarrow> c),
                   t_created_at = clock w1, t_updated_at = None\<rparr>],
              next_todo_id := next_todo_id w1 + 1\<rparr>)
        else (Inl DbError, w1))"

definition Todo_remove :: "int \<Rightarrow> world \<Rightarrow> (js_error + nat) \<times> world" where
  "Todo_remove i w =
     (case db_call DeleteTodo w of (ok, w1) \<Rightarrow>
        if ok then
          (Inr (length (filter (\<lambda>t. t_id t = i) (todos w1))),
           w1\<lparr>todos := filter (\<lambda>t. t_id t \<noteq> i) (todos w1)\<rparr>)
        else (Inl DbError, w1))"

definition Todo_update ::
  "string \<Rightarrow> bool \<Rightarrow> int \<Rightarrow> int \<Rightarrow> world \<Rightarrow> (js_error + nat) \<times> world" where
  "Todo_update name completed i listId w =
     (case db_call UpdateTodo w of (ok, w1) \<Rightarrow>
        if ok then
          (Inr (length (filter (\<lambda>t. t_id t = i) (todos w1))),
           w1\<lparr>todos := map (\<lambda>t. if t_id t = i
                                 then t\<lparr>t_name := name, t_completed := completed,
                                        t_list_id := listId, t_updated_at := Some (clock w1)\<rparr>
                                 else t) (todos w1)\<rparr>)
        else (Inl DbError, w1))"

definition Todo_findAllByListId :: "int \<Rightarrow> world \<Rightarrow> (js_error + todo_row list) \<times> world" where
  "Todo_findAllByListId listId w =
     (case db_call SelectTodosByList w of (ok, w1) \<Rightarrow>
        if ok then (Inr (filter (\<lambda>t. t_list_id t = listId) (todos w1)), w1)
        else (Inl DbError, w1))"

definition Todo_getTodoById :: "int \<Rightarrow> world \<Rightarrow> (js_error + todo_row list) \<times> world" where
  "Todo_getTodoById i w =
     (case db_call SelectTodoById w of (ok, w1) \<Rightarrow>
        if ok then (Inr (filter (\<lambda>t. t_id t = i) (todos w1)), w1)
        else (Inl DbError, w1))"

section \<open>utils/responseHelper.js\<close>

text \<open>Source: \<^verbatim>\<open>src/utils/responseHelper.js\<close>.\<close>

text \<open>
  A \<open>Date\<close> sent in a response. \<open>Date.now() + ttl * 1000\<close> coerces the TTL string to a
  number: a string of decimal digits is read as that number, \<open>undefined\<close> gives NaN and
  an invalid date, and so does a time value beyond the range of \<open>Date\<close>
  (8.64e15 ms either side of the epoch). For any other spelling of the TTL the sum is
  kept as written (\<open>DateFrom\<close>).
\<close>

datatype jsdate = Date timestamp | InvalidDate | DateFrom timestamp string

datatype data =
    DNull
  | DToken string jsdate
  | DLists "list_row list"
  | DList list_row
  | DIdName int string
  | DTodos "todo_row list"
  | DTodo todo_row
  | DTodoFields int string int bool

datatype body =
    Success data string
  | Failure string "js_error option"
  | NoRoute
  | Unanswered

record response =
  status :: nat
  body :: body

definition successResponse :: "data \<Rightarrow> string \<Rightarrow> response" where
  "successResponse d message = \<lparr>status = 200, body = Success d message\<rparr>"

definition default_message :: string where
  "default_message = ''Request completed successfully''"

text \<open>The \<open>error\<close> argument defaults to \<open>{}\<close>, which is \<open>None\<close> here.\<close>

definition errorResponse :: "string \<Rightarrow> nat \<Rightarrow> js_error option \<Rightarrow> response" where
  "errorResponse message st err = \<lparr>status = st, body = Failure message err\<rparr>"

section \<open>controllers/authController.js\<close>

text \<open>Source: the second module of \<^verbatim>\<open>src/routes/listRoutes.js\<close>.\<close>

record env =
  JWT_SECRET :: "string option"
  JWT_TTL :: "string option"

definition fallback_secret :: string where
  "fallback_secret = ''dsfsdfdsfsfdsf4332432432432432432''"

text \<open>\<open>process.env.JWT_SECRET || fallback\<close>: unset and empty both take the fallback.\<close>

definition signing_secret :: "env \<Rightarrow> string" where
  "signing_secret E =
     (case JWT_SECRET E of None \<Rightarrow> fallback_secret
      | Some s \<Rightarrow> if s = [] then fallback_secret else s)"

definition is_digit :: "char \<Rightarrow> bool" where
  "is_digit c = (c \<in> set ''0123456789'')"

definition digit_value :: "char \<Rightarrow> int" where
  "digit_value c = int (of_char c) - 48"

definition decimal :: "string \<Rightarrow> int" where
  "decimal s = foldl (\<lambda>n c. 10 * n + digit_value c) 0 s"

text \<open>\<open>new Date(Date.now() + ttl * 1000)\<close>\<close>

definition max_time :: int where
  "max_time = 8640000000000000"

definition expiryDate :: "timestamp \<Rightarrow> string option \<Rightarrow> jsdate" where
  "expiryDate now ttl =
     (case ttl of
        None \<Rightarrow> InvalidDate
      | Some s \<Rightarrow>
          if list_all is_digit s
          then (if \<bar>now + decimal s * 1000\<bar> \<le> max_time
                then Date (now + decimal s * 1000) else InvalidDate)
          else DateFrom now s)"

text \<open>
  The part \<open>register\<close> and \<open>login\<close> share after the credentials are settled: sign the
  payload, compute the expiry, answer. \<open>failure\<close> is the message of the enclosing
  \<open>catch\<close>.
\<close>

definition issue_token ::
  "libs \<Rightarrow> env \<Rightarrow> string \<Rightarrow> claims \<Rightarrow> world \<Rightarrow> response \<times> world" where
  "issue_token L E failure payload w =
     (let secret = signing_secret E;
          ttl = JWT_TTL E;
          w1 = record_event JwtSign w
      in case jwt_sign L payload secret ttl (clock w1) of
           Inl e \<Rightarrow> (errorResponse failure 500 (Some e), w1)
         | Inr token \<Rightarrow>
             (successResponse (DToken token (expiryDate (clock w1) ttl)) default_message, w1))"

definition register ::
  "libs \<Rightarrow> env \<Rightarrow> string \<Rightarrow> string \<Rightarrow> string option \<Rightarrow> world \<Rightarrow> response \<times> world" where
  "register L E name email password w =
     (case User_findByEmail email w of
        (Inl e, w1) \<Rightarrow> (errorResponse ''Error registering user'' 500 (Some e), w1)
      | (Inr (Some existingUser), w1) \<Rightarrow>
          (errorResponse ''Email is already registered'' 409 None, w1)
      | (Inr None, w1) \<Rightarrow>
          (case User_create L name email password w1 of
             (Inl e, w2) \<Rightarrow> (errorResponse ''Error registering user'' 500 (Some e), w2)
           | (Inr userId, w2) \<Rightarrow>
               issue_token L E ''Error registering user''
                 \<lparr>c_id = userId, c_email = email\<rparr> w2))"

text \<open>
  \<open>await bcrypt.compare(password, user.password)\<close> is inside the \<open>try\<close>: when it rejects,
  the \<open>catch\<close> answers 500.
\<close>

definition login ::
  "libs \<Rightarrow> env \<Rightarrow> string \<Rightarrow> string option \<Rightarrow> world \<Rightarrow> response \<times> world" where
  "login L E email password w =
     (case User_findByEmail email w of
        (Inl e, w1) \<Rightarrow> (errorResponse ''Error logging in user'' 500 (Some e), w1)
      | (Inr None, w1) \<Rightarrow> (errorResponse ''Invalid email or password'' 401 None, w1)
      | (Inr (Some user), w1) \<Rightarrow>
          (let w2 = record_event BcryptCompare w1
           in case bcrypt_compare_call L password (u_password user) of
                Inl e \<Rightarrow> (errorResponse ''Error logging in user'' 500 (Some e), w2)
              | Inr isPasswordValid \<Rightarrow>
                  if \<not> isPasswordValid
                  then (errorResponse ''Invalid email or password'' 401 None, w2)
                  else issue_token L E ''Error logging in user''
                         \<lparr>c_id = u_id user, c_email = u_email user\<rparr> w2))"

section \<open>middleware/authMiddleware.js\<close>

text \<open>Source: \<^verbatim>\<open>src/middleware/authMiddleware.js\<close>.\<close>

datatype http_method = GET | POST | PUT | PATCH | DELETE

text \<open>
  A request after Express has parsed it: the path as its segments, the
  \<open>Authorization\<close> header if there is one, \<open>req.user\<close>, the route parameter \<open>:id\<close> (as the
  number the store compares with the id column) and the fields of the JSON body that
  the handlers destructure. \<open>completed\<close> may be left out; \<open>password\<close> is \<open>None\<close> when it
  is left out or is not a string.
\<close>

record request =
  req_method :: http_method
  path :: "string list"
  authorization :: "string option"
  user :: "claims option"
  params_id :: int
  b_name :: string
  b_email :: string
  b_password :: "string option"
  b_listId :: int
  b_completed :: "bool option"

text \<open>\<open>String.prototype.replace\<close> with a string pattern: the first occurrence only.\<close>

fun replace_first :: "string \<Rightarrow> string \<Rightarrow> string \<Rightarrow> string" where
  "replace_first pat rep [] = (if pat = [] then rep else [])"
| "replace_first pat rep (c # cs) =
     (if prefix pat (c # cs) then rep @ drop (length pat) (c # cs)
      else c # replace_first pat rep cs)"

datatype outcome = Respond response | Next request

text \<open>String concatenation with an environment variable: unset prints as \<open>undefined\<close>.\<close>

definition env_text :: "string option \<Rightarrow> string" where
  "env_text v = (case v of None \<Rightarrow> ''undefined'' | Some s \<Rightarrow> s)"

definition authMiddleware :: "libs \<Rightarrow> env \<Rightarrow> request \<Rightarrow> world \<Rightarrow> outcome \<times> world" where
  "authMiddleware L E req w =
     (case map_option (replace_first ''Bearer '' []) (authorization req) of
        None \<Rightarrow> (Respond (errorResponse ''Unauthorized'' 401 None), w)
      | Some token \<Rightarrow>
          if token = [] then (Respond (errorResponse ''Unauthorized'' 401 None), w)
          else
            (let w1 = record_event JwtVerify w
             in case jwt_verify L token (JWT_SECRET E) (clock w1) of
                  Inr tokenDecoded \<Rightarrow> (Next (req\<lparr>user := Some tokenDecoded\<rparr>), w1)
                | Inl error \<Rightarrow>
                    (Respond (errorResponse (''Invalid token, TTL:'' @ env_text (JWT_TTL E))
                                401 (Some error)), w1)))"

section \<open>controllers/listController.js\<close>

text \<open>Source: \<^verbatim>\<open>src/controllers/listController.js\<close>.\<close>

text \<open>
  A handler that reads \<open>req.user.id\<close> while \<open>req.user\<close> is unset throws outside its
  \<open>try\<close> and writes no response.
\<close>

definition no_reply :: response where
  "no_reply = \<lparr>status = 0, body = Unanswered\<rparr>"

type_synonym handler = "request \<Rightarrow> world \<Rightarrow> response \<times> world"

definition getUserLists :: handler where
  "getUserLists req w =
     (case user req of
        None \<Rightarrow> (no_reply, w)
      | Some u \<Rightarrow>
          (case List_findAllByUserId (c_id u) w of
             (Inr rows, w1) \<Rightarrow> (successResponse (DLists rows) ''Lists fetched successfully'', w1)
           | (Inl e, w1) \<Rightarrow> (errorResponse ''Error fetching lists'' 500 (Some e), w1)))"

definition getListById :: handler where
  "getListById req w =
     (case user req of
        None \<Rightarrow> (no_reply, w)
      | Some u \<Rightarrow>
          (case List_getListById (params_id req) (c_id u) w of
             (Inr [], w1) \<Rightarrow> (errorResponse ''List not found'' 404 None, w1)
           | (Inr (l # _), w1) \<Rightarrow> (successResponse (DList l) ''List fetched successfully'', w1)
           | (Inl e, w1) \<Rightarrow> (errorResponse ''Error fetching list'' 500 (Some e), w1)))"

definition createList :: handler where
  "createList req w =
     (case user req of
        None \<Rightarrow> (no_reply, w)
      | Some u \<Rightarrow>
          (case List_create (b_name req) (c_id u) w of
             (Inr listId, w1) \<Rightarrow>
               (successResponse (DIdName listId (b_name req)) ''List created successfully'', w1)
           | (Inl e, w1) \<Rightarrow> (errorResponse ''Error creating list'' 500 (Some e), w1)))"

definition updateList :: handler where
  "updateList req w =
     (case user req of
        None \<Rightarrow> (no_reply, w)
      | Some u \<Rightarrow>
          (case List_update (b_name req) (params_id req) (c_id u) w of
             (Inr affectedRows, w1) \<Rightarrow>
               if affectedRows \<noteq> 0
               then (successResponse (DIdName (params_id req) (b_name req))
                       ''List updated successfully'', w1)
               else (errorResponse ''List not found or update failed'' 404 None, w1)
           | (Inl e, w1) \<Rightarrow> (errorResponse ''Error updating list'' 500 (Some e), w1)))"

definition deleteList :: handler where
  "deleteList req w =
     (case user req of
        None \<Rightarrow> (no_reply, w)
      | Some u \<Rightarrow>
          (case List_remove (params_id req) (c_id u) w of
             (Inr affectedRows, w1) \<Rightarrow>
               if affectedRows \<noteq> 0
               then (successResponse DNull ''List deleted successfully'', w1)
               else (errorResponse ''List not found or deletion failed'' 404 None, w1)
           | (Inl e, w1) \<Rightarrow> (errorResponse ''Error deleting list'' 500 (Some e), w1)))"

section \<open>controllers/todoController.js\<close>

text \<open>Source: \<^verbatim>\<open>src/controllers/todoController.js\<close>.\<close>

definition getTodos :: handler where
  "getTodos req w =
     (case Todo_findAllByListId (b_listId req) w of
        (Inr rows, w1) \<Rightarrow> (successResponse (DTodos rows) ''Todos fetched successfully'', w1)
      | (Inl e, w1) \<Rightarrow> (errorResponse ''Error fetching todos'' 500 (Some e), w1))"

definition getTodoById :: handler where
  "getTodoById req w =
     (case Todo_getTodoById (params_id req) w of
        (Inr [], w1) \<Rightarrow> (errorResponse ''Todo not found'' 404 None, w1)
      | (Inr (t # _), w1) \<Rightarrow> (successResponse (DTodo t) ''Todo fetched successfully'', w1)
      | (Inl e, w1) \<Rightarrow> (errorResponse ''Error fetching todo'' 500 (Some e), w1))"

definition createTodo :: handler where
  "createTodo req w =
     (let completed = (case b_completed req of None \<Rightarrow> False | Some c \<Rightarrow> c)
      in case Todo_create (b_name req) (b_listId req) (Some completed) w of
           (Inr todoId, w1) \<Rightarrow>
             (successResponse (DTodoFields todoId (b_name req) (b_listId req) completed)
                ''Todo created successfully'', w1)
         | (Inl e, w1) \<Rightarrow> (errorResponse ''Error creating todo'' 500 (Some e), w1))"

text \<open>
  \<open>updateTodo\<close> passes \<open>completed\<close> on as it came; \<open>db.execute\<close> throws on an
  \<open>undefined\<close> bind parameter before anything is sent, and the \<open>catch\<close> answers 500.
\<close>

definition updateTodo :: handler where
  "updateTodo req w =
     (case b_completed req of
        None \<Rightarrow> (errorResponse ''Error updating todo'' 500 (Some BindError), w)
      | Some completed \<Rightarrow>
          (case Todo_update (b_name req) completed (params_id req) (b_listId req) w of
             (Inr affectedRows, w1) \<Rightarrow>
               if affectedRows \<noteq> 0
               then (successResponse
                       (DTodoFields (params_id req) (b_name req) (b_listId req) completed)
                       ''Todo updated successfully'', w1)
               else (errorResponse ''Todo not found or update failed'' 404 None, w1)
           | (Inl e, w1) \<Rightarrow> (errorResponse ''Error updating todo'' 500 (Some e), w1)))"

definition deleteTodo :: handler where
  "deleteTodo req w =
     (case Todo_remove (params_id req) w of
        (Inr affectedRows, w1) \<Rightarrow>
          if affectedRows \<noteq> 0
          then (successResponse DNull ''Todo deleted successfully'', w1)
          else (errorResponse ''Todo not found or deletion failed'' 404 None, w1)
      | (Inl e, w1) \<Rightarrow> (errorResponse ''Error deleting todo'' 500 (Some e), w1))"

section \<open>routes and app.js\<close>

text \<open>Sources: \<^verbatim>\<open>src/routes/listRoutes.js\<close> (list routes), the second module of
  \<^verbatim>\<open>src/middleware/authMiddleware.js\<close> (auth routes), \<^verbatim>\<open>src/app.js\<close>.\<close>

text \<open>A router answers, or calls \<open>next()\<close> (\<open>None\<close>) when no route matches.\<close>

type_synonym router = "request \<Rightarrow> world \<Rightarrow> (response \<times> world) option"

definition listRoutes :: router where
  "listRoutes req w =
     (case path req of
        [] \<Rightarrow> (if req_method req = GET then Some (getUserLists req w)
               else if req_method req = POST then Some (createList req w)
               else None)
      | [_] \<Rightarrow> (if req_method req = GET then Some (getListById req w)
                else if req_method req = PATCH \<or> req_method req = PUT then Some (updateList req w)
                else if req_method req = DELETE then Some (deleteList req w)
                else None)
      | _ \<Rightarrow> None)"

definition authRoutes :: "libs \<Rightarrow> env \<Rightarrow> router" where
  "authRoutes L E req w =
     (if req_method req = POST \<and> path req = [''login'']
      then Some (login L E (b_email req) (b_password req) w)
      else if req_method req = POST \<and> path req = [''register'']
      then Some (register L E (b_name req) (b_email req) (b_password req) w)
      else None)"

text \<open>\<open>app.use(prefix, ...)\<close> matches a path that starts with the prefix's segments.\<close>

definition mounted :: "string list \<Rightarrow> string list \<Rightarrow> string list option" where
  "mounted m p = (if prefix m p then Some (drop (length m) p) else None)"

text \<open>What Express answers when no middleware took the request.\<close>

definition not_found :: response where
  "not_found = \<lparr>status = 404, body = NoRoute\<rparr>"

text \<open>
  \<open>app.use(prefix, authMiddleware, router)\<close>: the router runs only when the gate called
  \<open>next()\<close>, on the request the gate passed on.
\<close>

definition protected :: "libs \<Rightarrow> env \<Rightarrow> router \<Rightarrow> string list \<Rightarrow> handler" where
  "protected L E r rest req w =
     (case authMiddleware L E req w of
        (Respond res, w1) \<Rightarrow> (res, w1)
      | (Next req1, w1) \<Rightarrow>
          (case r (req1\<lparr>path := rest\<rparr>) w1 of
             Some answer \<Rightarrow> answer
           | None \<Rightarrow> (not_found, w1)))"

text \<open>
  The three mounts of \<open>app.js\<close>, in order. \<open>routes/todoRoutes\<close> is the router mounted
  under \<open>/api/todos\<close>; it is a parameter. The two middlewares mounted in front of them
  (\<open>express.json()\<close> and \<open>cors\<close>) are left out: a request here is one they have passed
  on. Path segments are compared as they are written.
\<close>

definition app :: "libs \<Rightarrow> env \<Rightarrow> router \<Rightarrow> handler" where
  "app L E todoRoutes req w =
     (case mounted [''api'', ''lists''] (path req) of
        Some rest \<Rightarrow> protected L E listRoutes rest req w
      | None \<Rightarrow>
          (case mounted [''api'', ''todos''] (path req) of
             Some rest \<Rightarrow> protected L E todoRoutes rest req w
           | None \<Rightarrow>
               (case mounted [''api'', ''auth''] (path req) of
                  Some rest \<Rightarrow>
                    (case authRoutes L E (req\<lparr>path := rest\<rparr>) w of
                       Some answer \<Rightarrow> answer
                     | None \<Rightarrow> (not_found, w))
                | None \<Rightarrow> (not_found, w))))"

section \<open>Concrete instances\<close>

text \<open>
  A stand-in for bcryptjs and jsonwebtoken, for the instances at which the theorems below
  are applied. A token is the secret, the id in unary and the email, joined by dots.
  \<open>sign\<close> throws without a usable \<open>expiresIn\<close>; \<open>verify\<close> refuses a missing key, as
  jsonwebtoken does (\<open>secret or public key must be provided\<close>), and accepts only what
  \<open>sign\<close> produces for that key, giving back the claims that were signed.
\<close>

definition toy_sign :: "claims \<Rightarrow> string \<Rightarrow> string option \<Rightarrow> timestamp \<Rightarrow> js_error + string" where
  "toy_sign c secret ttl now =
     (case ttl of
        None \<Rightarrow> Inl JwtError
      | Some s \<Rightarrow>
          if s = [] then Inl JwtError
          else Inr (secret @ ''.'' @ replicate (nat (c_id c)) CHR ''i'' @ ''.'' @ c_email c))"

definition toy_verify :: "string \<Rightarrow> string option \<Rightarrow> timestamp \<Rightarrow> js_error + claims" where
  "toy_verify t secret now =
     (case secret of
        None \<Rightarrow> Inl JwtError
      | Some k \<Rightarrow>
          if k \<noteq> [] \<and> prefix (k @ ''.'') t \<and> CHR '' '' \<notin> set t
          then (let payload = drop (length k + 1) t;
                    ones = takeWhile (\<lambda>c. c = CHR ''i'') payload;
                    rest = drop (length ones) payload
                in if prefix ''.'' rest
                   then Inr \<lparr>c_id = int (length ones), c_email = drop 1 rest\<rparr>
                   else Inl JwtError)
          else Inl JwtError)"

definition toy_libs :: libs where
  "toy_libs =
     \<lparr>bcrypt_hash = (\<lambda>p rounds salt. ''$2b$'' @ p),
      bcrypt_compare = (\<lambda>p h. h = ''$2b$'' @ p),
      jwt_sign = toy_sign,
      jwt_verify = toy_verify\<rparr>"

definition env_set :: env where
  "env_set = \<lparr>JWT_SECRET = Some ''k'', JWT_TTL = Some ''3600''\<rparr>"

definition env_unset :: env where
  "env_unset = \<lparr>JWT_SECRET = None, JWT_TTL = Some ''3600''\<rparr>"

definition list_A :: list_row where
  "list_A = \<lparr>l_id = 1, l_name = ''A'', l_user_id = 1, l_created_at = 0, l_updated_at = None\<rparr>"

definition list_B :: list_row where
  "list_B = \<lparr>l_id = 2, l_name = ''B'', l_user_id = 2, l_created_at = 0, l_updated_at = None\<rparr>"

definition mario :: user_row where
  "mario = \<lparr>u_id = 1, u_name = ''Mario'', u_email = ''mario@test.it'',
            u_password = ''$2b$pw123'', u_created_at = 0\<rparr>"

definition world_empty :: world where
  "world_empty =
     \<lparr>users = [], lists = [], todos = [], next_user_id = 1, next_list_id = 1,
      next_todo_id = 1, clock = 1000, faults = [], entropy = 0, log = []\<rparr>"

definition world_two :: world where
  "world_two = world_empty\<lparr>users := [mario], lists := [list_A, list_B],
                          next_user_id := 2, next_list_id := 3\<rparr>"

definition req_lists :: request where
  "req_lists =
     \<lparr>req_method = GET, path = [''api'', ''lists''], authorization = None, user = None,
      params_id = 0, b_name = [], b_email = [], b_password = None, b_listId = 0,
      b_completed = None\<rparr>"

text \<open>A login request whose body has an email and no password.\<close>

definition req_login :: "string \<Rightarrow> request" where
  "req_login email =
     req_lists\<lparr>req_method := POST, path := [''api'', ''auth'', ''login''], b_email := email\<rparr>"

text \<open>A router with no route, to stand where the todo router is mounted.\<close>

definition todoRoutes_none :: router where
  "todoRoutes_none req w = None"

text \<open>A request of user 2 for list 1, as the gate passes it on.\<close>

definition req_luigi :: request where
  "req_luigi = req_lists\<lparr>user := Some \<lparr>c_id = 2, c_email = ''luigi@test.it''\<rparr>,
                         params_id := 1, b_name := ''X''\<rparr>"

text \<open>A todo of list 1, which user 1 owns, and a request of user 2 that names it.\<close>

definition todo_T :: todo_row where
  "todo_T = \<lparr>t_id = 7, t_name = ''Buy milk'', t_list_id = 1, t_completed = False,
             t_created_at = 0, t_updated_at = None\<rparr>"

definition world_todo :: world where
  "world_todo = world_two\<lparr>todos := [todo_T], next_todo_id := 8\<rparr>"

definition req_todo :: request where
  "req_todo = req_lists\<lparr>user := Some \<lparr>c_id = 2, c_email = ''luigi@test.it''\<rparr>,
                        params_id := 7, b_name := ''Stolen'', b_listId := 2,
                        b_completed := Some True\<rparr>"

section \<open>Facts about the store\<close>

lemma db_call_lists [simp]: "lists (snd (db_call q w)) = lists w"
  by (simp add: db_call_def record_event_def split: list.splits)

lemma db_call_users [simp]: "users (snd (db_call q w)) = users w"
  by (simp add: db_call_def record_event_def split: list.splits)

lemma db_call_todos [simp]: "todos (snd (db_call q w)) = todos w"
  by (simp add: db_call_def record_event_def split: list.splits)

lemma db_call_clock [simp]: "clock (snd (db_call q w)) = clock w"
  by (simp add: db_call_def record_event_def split: list.splits)

lemma db_call_log [simp]: "log (snd (db_call q w)) = log w @ [Sql q]"
  by (simp add: db_call_def record_event_def split: list.splits)

lemma db_call_ok: "fst (db_call q w) = (case faults w of [] \<Rightarrow> True | f # _ \<Rightarrow> \<not> f)"
  by (simp add: db_call_def split: list.splits)

lemma db_call_lists_upd:
  "db_call q (w\<lparr>lists := ls\<rparr>) = (fst (db_call q w), (snd (db_call q w))\<lparr>lists := ls\<rparr>)"
  by (simp add: db_call_def record_event_def split: list.splits)

lemma db_call_next_user_id [simp]: "next_user_id (snd (db_call q w)) = next_user_id w"
  by (simp add: db_call_def record_event_def split: list.splits)

lemma db_call_next_list_id [simp]: "next_list_id (snd (db_call q w)) = next_list_id w"
  by (simp add: db_call_def record_event_def split: list.splits)

lemma db_call_entropy [simp]: "entropy (snd (db_call q w)) = entropy w"
  by (simp add: db_call_def record_event_def split: list.splits)

lemma db_call_faults: "faults (snd (db_call q w)) = tl (faults w)"
  by (simp add: db_call_def record_event_def split: list.splits)

lemma db_call_no_fault: "faults w = [] \<Longrightarrow> db_call q w = (True, record_event (Sql q) w)"
  by (simp add: db_call_def)

section \<open>Facts about the List model\<close>

lemma filter_update_foreign:
  "filter (\<lambda>l. l_user_id l \<noteq> u)
     (map (\<lambda>l. if list_matches i u l then l\<lparr>l_name := n, l_updated_at := t\<rparr> else l) xs)
   = filter (\<lambda>l. l_user_id l \<noteq> u) xs"
  by (induction xs) (auto simp: list_matches_def)

lemma filter_remove_foreign:
  "filter (\<lambda>l. \<not> list_matches i u l \<and> l_user_id l \<noteq> u) xs
   = filter (\<lambda>l. l_user_id l \<noteq> u) xs"
  by (rule filter_cong) (auto simp: list_matches_def)

lemma matches_via_own:
  "filter (list_matches i u) xs = filter (\<lambda>l. l_id l = i) (filter (\<lambda>l. l_user_id l = u) xs)"
  by (induction xs) (auto simp: list_matches_def)

lemma unique_id_owner:
  assumes "distinct (map l_id xs)" "L \<in> set xs" "l_user_id L \<noteq> u"
  shows "filter (list_matches (l_id L) u) xs = []"
proof -
  have "\<And>l. l \<in> set xs \<Longrightarrow> l_id l = l_id L \<Longrightarrow> l = L"
    using assms(1,2) by (meson distinct_map inj_onD)
  then show ?thesis
    using assms(3) by (auto simp: filter_empty_conv list_matches_def)
qed

lemma findAll_fst:
  "fst (List_findAllByUserId u w) =
     (if fst (db_call SelectListsByUser w) then Inr (own_lists u w) else Inl DbError)"
  by (simp add: List_findAllByUserId_def own_lists_def case_prod_beta)

lemma getList_fst:
  "fst (List_getListById i u w) =
     (if fst (db_call SelectListById w) then Inr (filter (list_matches i u) (lists w))
      else Inl DbError)"
  by (simp add: List_getListById_def case_prod_beta)

lemma List_create_lists:
  "lists (snd (List_create n u w)) =
     (if fst (db_call InsertList w)
      then lists w @ [\<lparr>l_id = next_list_id w, l_name = n, l_user_id = u,
                       l_created_at = clock w, l_updated_at = None\<rparr>]
      else lists w)"
  by (simp add: List_create_def case_prod_beta db_call_def record_event_def split: list.splits)

lemma List_remove_lists:
  "lists (snd (List_remove i u w)) =
     (if fst (db_call DeleteList w) then filter (\<lambda>l. \<not> list_matches i u l) (lists w)
      else lists w)"
  by (simp add: List_remove_def case_prod_beta)

lemma List_update_lists:
  "lists (snd (List_update n i u w)) =
     (if fst (db_call UpdateList w)
      then map (\<lambda>l. if list_matches i u l
                     then l\<lparr>l_name := n, l_updated_at := Some (clock w)\<rparr> else l) (lists w)
      else lists w)"
  by (simp add: List_update_def case_prod_beta)

text \<open>
  Ids stay unique: a table whose ids are distinct and below the AUTO_INCREMENT counter is
  again such a table after \<open>create\<close>, \<open>remove\<close> and \<open>update\<close>.
\<close>

lemma List_create_next:
  "next_list_id (snd (List_create n u w)) =
     (if fst (db_call InsertList w) then next_list_id w + 1 else next_list_id w)"
  by (simp add: List_create_def case_prod_beta)

lemma List_remove_next [simp]: "next_list_id (snd (List_remove i u w)) = next_list_id w"
  by (simp add: List_remove_def case_prod_beta)

lemma List_update_next [simp]: "next_list_id (snd (List_update n i u w)) = next_list_id w"
  by (simp add: List_update_def case_prod_beta)

lemma map_id_update:
  "l_id \<circ> (\<lambda>l. if list_matches i u l then l\<lparr>l_name := n, l_updated_at := t\<rparr> else l) = l_id"
  by (auto simp: fun_eq_iff)

lemma lists_wf_preserved:
  assumes "lists_wf w"
  shows "lists_wf (snd (List_create n u w))"
    and "lists_wf (snd (List_remove i u w))"
    and "lists_wf (snd (List_update n i u w))"
proof -
  from assms have d: "distinct (map l_id (lists w))"
    and b: "\<forall>l \<in> set (lists w). l_id l < next_list_id w"
    by (auto simp: lists_wf_def list_all_iff)
  from b have fresh: "next_list_id w \<notin> l_id ` set (lists w)"
    by auto
  show "lists_wf (snd (List_create n u w))"
    using d b fresh
    by (auto simp: lists_wf_def list_all_iff List_create_lists List_create_next)
  show "lists_wf (snd (List_remove i u w))"
    using d b by (auto simp: lists_wf_def list_all_iff List_remove_lists distinct_map_filter)
  show "lists_wf (snd (List_update n i u w))"
    using d b
    by (auto simp: lists_wf_def list_all_iff List_update_lists map_id_update)
qed

lemma lists_wf_distinct: "lists_wf w \<Longrightarrow> distinct (map l_id (lists w))"
  by (simp add: lists_wf_def)

text \<open>The list handlers, for a request the gate let through.\<close>

lemma findAll_snd: "snd (List_findAllByUserId u w) = snd (db_call SelectListsByUser w)"
  by (simp add: List_findAllByUserId_def case_prod_beta)

lemma getList_snd: "snd (List_getListById i u w) = snd (db_call SelectListById w)"
  by (simp add: List_getListById_def case_prod_beta)

lemma handler_state:
  assumes "user req = Some c"
  shows "snd (getUserLists req w) = snd (List_findAllByUserId (c_id c) w)"
    and "snd (getListById req w) = snd (List_getListById (params_id req) (c_id c) w)"
    and "snd (createList req w) = snd (List_create (b_name req) (c_id c) w)"
    and "snd (updateList req w) = snd (List_update (b_name req) (params_id req) (c_id c) w)"
    and "snd (deleteList req w) = snd (List_remove (params_id req) (c_id c) w)"
proof -
  show "snd (getUserLists req w) = snd (List_findAllByUserId (c_id c) w)"
    by (cases "List_findAllByUserId (c_id c) w")
      (auto simp: getUserLists_def assms split: sum.split)
  show "snd (getListById req w) = snd (List_getListById (params_id req) (c_id c) w)"
    by (cases "List_getListById (params_id req) (c_id c) w")
      (auto simp: getListById_def assms split: sum.split list.split)
  show "snd (createList req w) = snd (List_create (b_name req) (c_id c) w)"
    by (cases "List_create (b_name req) (c_id c) w")
      (auto simp: createList_def assms split: sum.split)
  show "snd (updateList req w) = snd (List_update (b_name req) (params_id req) (c_id c) w)"
    by (cases "List_update (b_name req) (params_id req) (c_id c) w")
      (auto simp: updateList_def assms split: sum.split)
  show "snd (deleteList req w) = snd (List_remove (params_id req) (c_id c) w)"
    by (cases "List_remove (params_id req) (c_id c) w")
      (auto simp: deleteList_def assms split: sum.split)
qed

lemma getListById_foreign:
  assumes "user req = Some c" and "filter (list_matches (params_id req) (c_id c)) (lists w) = []"
  shows "fst (getListById req w) =
     (if fst (db_call SelectListById w) then errorResponse ''List not found'' 404 None
      else errorResponse ''Error fetching list'' 500 (Some DbError))"
proof -
  obtain r w1 where p: "List_getListById (params_id req) (c_id c) w = (r, w1)"
    by (cases "List_getListById (params_id req) (c_id c) w")
  then have "r = fst (List_getListById (params_id req) (c_id c) w)" by simp
  then have r: "r = (if fst (db_call SelectListById w) then Inr [] else Inl DbError)"
    using assms(2) by (simp add: getList_fst)
  show ?thesis
    using p r by (simp add: getListById_def assms(1))
qed

lemma getUserLists_rows:
  assumes "user req = Some c"
  shows "fst (getUserLists req w) =
     (if fst (db_call SelectListsByUser w)
      then successResponse (DLists (own_lists (c_id c) w)) ''Lists fetched successfully''
      else errorResponse ''Error fetching lists'' 500 (Some DbError))"
proof -
  obtain r w1 where p: "List_findAllByUserId (c_id c) w = (r, w1)"
    by (cases "List_findAllByUserId (c_id c) w")
  then have "r = fst (List_findAllByUserId (c_id c) w)" by simp
  then have r: "r = (if fst (db_call SelectListsByUser w) then Inr (own_lists (c_id c) w)
                     else Inl DbError)"
    by (simp add: findAll_fst)
  show ?thesis
    using p r by (simp add: getUserLists_def assms(1))
qed


section \<open>Tenant isolation of lists\<close>

text \<open>
  Claim C1. Let \<open>L\<close> be a row of the \<open>lists\<close> table owned by a user other than \<open>u\<close>, in a
  table with unique ids. Then \<open>List.findAllByUserId(u)\<close> never returns \<open>L\<close>,
  \<open>List.getListById(L.id, u)\<close> returns no row, and \<open>create\<close>, \<open>remove\<close> and \<open>update\<close>
  called for \<open>u\<close> (with any id and name) leave every row owned by another user exactly
  as it was. Both queries read only the rows \<open>u\<close> owns: on two stores with the same rows
  of \<open>u\<close> they return the same. The handlers pass \<open>req.user.id\<close> as that user id: for a
  request whose \<open>req.user\<close> is \<open>u\<close>, creating, updating and deleting leave the rows of
  other users as they were, the list of lists never shows \<open>L\<close>, and asking for \<open>L\<close> by its
  id is answered 404 (or 500 when the store fails).
\<close>

theorem list_tenant_isolation:
  assumes member: "L \<in> set (lists w)" and foreign: "l_user_id L \<noteq> u"
    and uniq: "distinct (map l_id (lists w))"
  shows "(\<forall>rows. fst (List_findAllByUserId u w) = Inr rows \<longrightarrow> L \<notin> set rows)
       \<and> (\<forall>rows. fst (List_getListById (l_id L) u w) = Inr rows \<longrightarrow> rows = [])
       \<and> foreign_lists u (snd (List_create name u w)) = foreign_lists u w
       \<and> foreign_lists u (snd (List_remove i u w)) = foreign_lists u w
       \<and> foreign_lists u (snd (List_update name i u w)) = foreign_lists u w
       \<and> L \<in> set (foreign_lists u w)
       \<and> (\<forall>w'. own_lists u w' = own_lists u w \<and> faults w' = faults w \<longrightarrow>
             fst (List_findAllByUserId u w') = fst (List_findAllByUserId u w)
           \<and> fst (List_getListById i u w') = fst (List_getListById i u w))
       \<and> (\<forall>req c. user req = Some c \<and> c_id c = u \<longrightarrow>
             foreign_lists u (snd (createList req w)) = foreign_lists u w
           \<and> foreign_lists u (snd (updateList req w)) = foreign_lists u w
           \<and> foreign_lists u (snd (deleteList req w)) = foreign_lists u w
           \<and> (\<forall>rows m. fst (getUserLists req w) = successResponse (DLists rows) m
                 \<longrightarrow> L \<notin> set rows)
           \<and> (params_id req = l_id L \<longrightarrow>
                 fst (getListById req w) = errorResponse ''List not found'' 404 None
               \<or> fst (getListById req w)
                    = errorResponse ''Error fetching list'' 500 (Some DbError)))"
proof -
  have a1: "\<And>rows. fst (List_findAllByUserId u w) = Inr rows \<Longrightarrow> L \<notin> set rows"
    using foreign by (auto simp: findAll_fst own_lists_def split: if_splits)
  have none: "filter (list_matches (l_id L) u) (lists w) = []"
    by (rule unique_id_owner[OF uniq member foreign])
  have a2: "\<And>rows. fst (List_getListById (l_id L) u w) = Inr rows \<Longrightarrow> rows = []"
    using none by (auto simp: getList_fst split: if_splits)
  have a3: "\<And>n. foreign_lists u (snd (List_create n u w)) = foreign_lists u w"
    by (simp add: foreign_lists_def List_create_lists)
  have a4: "\<And>j. foreign_lists u (snd (List_remove j u w)) = foreign_lists u w"
    by (simp add: foreign_lists_def List_remove_lists filter_remove_foreign)
  have a5: "\<And>n j. foreign_lists u (snd (List_update n j u w)) = foreign_lists u w"
    by (simp add: foreign_lists_def List_update_lists filter_update_foreign)
  have a6: "L \<in> set (foreign_lists u w)"
    using member foreign by (simp add: foreign_lists_def)
  have a7: "\<And>w'. own_lists u w' = own_lists u w \<and> faults w' = faults w \<Longrightarrow>
             fst (List_findAllByUserId u w') = fst (List_findAllByUserId u w)
           \<and> fst (List_getListById i u w') = fst (List_getListById i u w)"
  proof -
    fix w' assume h: "own_lists u w' = own_lists u w \<and> faults w' = faults w"
    then have ok: "\<And>q. fst (db_call q w') = fst (db_call q w)"
      by (simp add: db_call_ok)
    have "filter (list_matches i u) (lists w') = filter (list_matches i u) (lists w)"
      using h by (simp add: matches_via_own own_lists_def)
    with h ok show "fst (List_findAllByUserId u w') = fst (List_findAllByUserId u w)
           \<and> fst (List_getListById i u w') = fst (List_getListById i u w)"
      by (simp add: findAll_fst getList_fst)
  qed
  have a8: "\<And>req c. user req = Some c \<and> c_id c = u \<Longrightarrow>
             foreign_lists u (snd (createList req w)) = foreign_lists u w
           \<and> foreign_lists u (snd (updateList req w)) = foreign_lists u w
           \<and> foreign_lists u (snd (deleteList req w)) = foreign_lists u w
           \<and> (\<forall>rows m. fst (getUserLists req w) = successResponse (DLists rows) m
                 \<longrightarrow> L \<notin> set rows)
           \<and> (params_id req = l_id L \<longrightarrow>
                 fst (getListById req w) = errorResponse ''List not found'' 404 None
               \<or> fst (getListById req w)
                    = errorResponse ''Error fetching list'' 500 (Some DbError))"
  proof -
    fix req :: request and c :: claims
    assume h: "user req = Some c \<and> c_id c = u"
    then have usr: "user req = Some c" and cu: "c_id c = u"
      by simp_all
    have b1: "foreign_lists u (snd (createList req w)) = foreign_lists u w"
      using a3 by (simp add: handler_state[OF usr] cu)
    have b2: "foreign_lists u (snd (updateList req w)) = foreign_lists u w"
      using a5 by (simp add: handler_state[OF usr] cu)
    have b3: "foreign_lists u (snd (deleteList req w)) = foreign_lists u w"
      using a4 by (simp add: handler_state[OF usr] cu)
    have b4: "\<forall>rows m. fst (getUserLists req w) = successResponse (DLists rows) m
                 \<longrightarrow> L \<notin> set rows"
      using foreign
      by (auto simp: getUserLists_rows[OF usr] cu successResponse_def errorResponse_def
          own_lists_def split: if_splits)
    have b5: "params_id req = l_id L \<longrightarrow>
                 fst (getListById req w) = errorResponse ''List not found'' 404 None
               \<or> fst (getListById req w)
                    = errorResponse ''Error fetching list'' 500 (Some DbError)"
    proof
      assume "params_id req = l_id L"
      with none have "filter (list_matches (params_id req) (c_id c)) (lists w) = []"
        by (simp add: cu)
      from getListById_foreign[OF usr this]
      show "fst (getListById req w) = errorResponse ''List not found'' 404 None
               \<or> fst (getListById req w)
                    = errorResponse ''Error fetching list'' 500 (Some DbError)"
        by simp
    qed
    from b1 b2 b3 b4 b5
    show "foreign_lists u (snd (createList req w)) = foreign_lists u w
           \<and> foreign_lists u (snd (updateList req w)) = foreign_lists u w
           \<and> foreign_lists u (snd (deleteList req w)) = foreign_lists u w
           \<and> (\<forall>rows m. fst (getUserLists req w) = successResponse (DLists rows) m
                 \<longrightarrow> L \<notin> set rows)
           \<and> (params_id req = l_id L \<longrightarrow>
                 fst (getListById req w) = errorResponse ''List not found'' 404 None
               \<or> fst (getListById req w)
                    = errorResponse ''Error fetching list'' 500 (Some DbError))"
      by (intro conjI)
  qed
  from a1 a2 a3 a4 a5 a6 a7 a8 show ?thesis
    by (intro conjI allI impI) blast+
qed

text \<open>
  The instance: user 2 asks for list 1, which user 1 owns. The queries return only
  user 2's list, the mutations find nothing to change, and list 1 stays.
\<close>

theorem list_tenant_isolation_witness:
  "fst (List_findAllByUserId 2 world_two) = Inr [list_B]
   \<and> fst (List_getListById 1 2 world_two) = Inr []
   \<and> fst (List_remove 1 2 world_two) = Inr 0
   \<and> fst (List_update ''X'' 1 2 world_two) = Inr 0
   \<and> foreign_lists 2 (snd (List_remove 1 2 world_two)) = [list_A]
   \<and> foreign_lists 2 (snd (List_update ''X'' 1 2 world_two)) = [list_A]
   \<and> foreign_lists 2 (snd (List_create ''X'' 2 world_two)) = [list_A]
   \<and> fst (List_findAllByUserId 2 (world_two\<lparr>lists := [list_B]\<rparr>))
       = fst (List_findAllByUserId 2 world_two)
   \<and> fst (List_getListById 1 2 (world_two\<lparr>lists := [list_B]\<rparr>))
       = fst (List_getListById 1 2 world_two)
   \<and> foreign_lists 2 (snd (deleteList req_luigi world_two)) = [list_A]
   \<and> foreign_lists 2 (snd (updateList req_luigi world_two)) = [list_A]
   \<and> fst (getListById req_luigi world_two)
       = \<lparr>status = 404, body = Failure ''List not found'' None\<rparr>
   \<and> fst (getUserLists req_luigi world_two)
       = \<lparr>status = 200, body = Success (DLists [list_B]) ''Lists fetched successfully''\<rparr>"
proof -
  have ls: "lists world_two = [list_A, list_B]" and fs: "faults world_two = []"
    by (simp_all add: world_two_def world_empty_def)
  have m: "list_A \<in> set (lists world_two)"
    by (simp add: ls)
  have f: "l_user_id list_A \<noteq> 2"
    by (simp add: list_A_def)
  have d: "distinct (map l_id (lists world_two))"
    by (simp add: ls list_A_def list_B_def)
  have fl: "foreign_lists 2 world_two = [list_A]"
    by (simp add: foreign_lists_def ls list_A_def list_B_def)
  have ow: "fst (List_findAllByUserId 2 world_two) = Inr [list_B]"
    by (simp add: findAll_fst own_lists_def db_call_ok fs ls list_A_def list_B_def)
  have g: "fst (List_getListById 1 2 world_two)
             = Inr (filter (list_matches 1 2) (lists world_two))"
    by (simp add: getList_fst db_call_ok fs)
  have r: "fst (List_remove 1 2 world_two) = Inr 0"
    by (simp add: List_remove_def case_prod_beta db_call_ok fs ls list_matches_def
        list_A_def list_B_def)
  have u: "fst (List_update ''X'' 1 2 world_two) = Inr 0"
    by (simp add: List_update_def case_prod_beta db_call_ok fs ls list_matches_def
        list_A_def list_B_def)
  have id: "l_id list_A = 1"
    by (simp add: list_A_def)
  have same: "own_lists 2 (world_two\<lparr>lists := [list_B]\<rparr>) = own_lists 2 world_two
                \<and> faults (world_two\<lparr>lists := [list_B]\<rparr>) = faults world_two"
    by (simp add: own_lists_def ls list_A_def list_B_def)
  have caller: "user req_luigi = Some \<lparr>c_id = 2, c_email = ''luigi@test.it''\<rparr>
                  \<and> c_id \<lparr>c_id = 2, c_email = ''luigi@test.it''\<rparr> = 2"
    by (simp add: req_luigi_def)
  have pid: "params_id req_luigi = l_id list_A"
    by (simp add: req_luigi_def list_A_def)
  note T = list_tenant_isolation[OF m f d, where name = "''X''" and i = 1]
  from T have gl: "\<forall>rows. fst (List_getListById (l_id list_A) 2 world_two) = Inr rows
                     \<longrightarrow> rows = []"
    by (elim conjE)
  from T have c: "foreign_lists 2 (snd (List_create ''X'' 2 world_two))
                    = foreign_lists 2 world_two"
    by (elim conjE)
  from T have rm: "foreign_lists 2 (snd (List_remove 1 2 world_two))
                     = foreign_lists 2 world_two"
    by (elim conjE)
  from T have up: "foreign_lists 2 (snd (List_update ''X'' 1 2 world_two))
                     = foreign_lists 2 world_two"
    by (elim conjE)
  from T have rd: "\<forall>w'. own_lists 2 w' = own_lists 2 world_two
                         \<and> faults w' = faults world_two \<longrightarrow>
             fst (List_findAllByUserId 2 w') = fst (List_findAllByUserId 2 world_two)
           \<and> fst (List_getListById 1 2 w') = fst (List_getListById 1 2 world_two)"
    by (elim conjE)
  from rd same have rd2: "fst (List_findAllByUserId 2 (world_two\<lparr>lists := [list_B]\<rparr>))
       = fst (List_findAllByUserId 2 world_two)
     \<and> fst (List_getListById 1 2 (world_two\<lparr>lists := [list_B]\<rparr>))
       = fst (List_getListById 1 2 world_two)"
    by blast
  from T caller have h: "foreign_lists 2 (snd (updateList req_luigi world_two))
                           = foreign_lists 2 world_two
           \<and> foreign_lists 2 (snd (deleteList req_luigi world_two)) = foreign_lists 2 world_two
           \<and> (params_id req_luigi = l_id list_A \<longrightarrow>
                 fst (getListById req_luigi world_two)
                   = errorResponse ''List not found'' 404 None
               \<or> fst (getListById req_luigi world_two)
                    = errorResponse ''Error fetching list'' 500 (Some DbError))"
    by blast
  have up8: "status (fst (getListById req_luigi world_two)) \<noteq> 500"
    using getList_fst[of 1 2 world_two]
    by (cases "List_getListById 1 2 world_two")
      (auto simp: getListById_def req_luigi_def db_call_ok fs successResponse_def
        errorResponse_def split: list.split)
  from h pid up8 have nf: "fst (getListById req_luigi world_two)
       = \<lparr>status = 404, body = Failure ''List not found'' None\<rparr>"
    by (auto simp: errorResponse_def)
  have gu: "fst (getUserLists req_luigi world_two)
       = \<lparr>status = 200, body = Success (DLists [list_B]) ''Lists fetched successfully''\<rparr>"
    using caller
    by (simp add: getUserLists_rows[where c = "\<lparr>c_id = 2, c_email = ''luigi@test.it''\<rparr>"]
        db_call_ok fs own_lists_def ls list_A_def list_B_def successResponse_def)
  from gl g id have e: "fst (List_getListById 1 2 world_two) = Inr []"
    by simp
  from h have h1: "foreign_lists 2 (snd (updateList req_luigi world_two)) = [list_A]"
    and h2: "foreign_lists 2 (snd (deleteList req_luigi world_two)) = [list_A]"
    by (simp_all add: fl)
  from ow e r u rm[unfolded fl] up[unfolded fl] c[unfolded fl] rd2 h1 h2 nf gu show ?thesis
    by (intro conjI) simp_all
qed

section \<open>Todos are not scoped by owner\<close>

lemma Todo_remove_eq:
  "faults w = [] \<Longrightarrow>
   Todo_remove t w =
     (Inr (length (filter (\<lambda>r. t_id r = t) (todos w))),
      (record_event (Sql DeleteTodo) w)\<lparr>todos := filter (\<lambda>r. t_id r \<noteq> t) (todos w)\<rparr>)"
  by (simp add: Todo_remove_def db_call_no_fault record_event_def)

lemma Todo_update_eq:
  "faults w = [] \<Longrightarrow>
   Todo_update name completed t listId w =
     (Inr (length (filter (\<lambda>r. t_id r = t) (todos w))),
      (record_event (Sql UpdateTodo) w)
        \<lparr>todos := map (\<lambda>r. if t_id r = t
                             then r\<lparr>t_name := name, t_completed := completed,
                                    t_list_id := listId, t_updated_at := Some (clock w)\<rparr>
                             else r) (todos w)\<rparr>)"
  by (simp add: Todo_update_def db_call_no_fault record_event_def)

lemma Todo_getTodoById_eq:
  "faults w = [] \<Longrightarrow>
   Todo_getTodoById t w =
     (Inr (filter (\<lambda>r. t_id r = t) (todos w)), record_event (Sql SelectTodoById) w)"
  by (simp add: Todo_getTodoById_def db_call_no_fault record_event_def)

lemma Todo_findAllByListId_eq:
  "faults w = [] \<Longrightarrow>
   Todo_findAllByListId listId w =
     (Inr (filter (\<lambda>r. t_list_id r = listId) (todos w)),
      record_event (Sql SelectTodosByList) w)"
  by (simp add: Todo_findAllByListId_def db_call_no_fault record_event_def)

lemma Todo_create_eq:
  "faults w = [] \<Longrightarrow>
   Todo_create name listId c w =
     (Inr (next_todo_id w),
      (record_event (Sql InsertTodo) w)
        \<lparr>todos := todos w @
                   [\<lparr>t_id = next_todo_id w, t_name = name, t_list_id = listId,
                     t_completed = (case c of None \<Rightarrow> False | Some b \<Rightarrow> b),
                     t_created_at = clock w, t_updated_at = None\<rparr>],
          next_todo_id := next_todo_id w + 1\<rparr>)"
  by (simp add: Todo_create_def db_call_no_fault record_event_def)

lemma filter_present: "T \<in> set xs \<Longrightarrow> filter (\<lambda>r. t_id r = t_id T) xs \<noteq> []"
  by (auto simp: filter_empty_conv)

lemma todo_handlers_on_any_row:
  assumes nofault: "faults w = []" and row: "T \<in> set (todos w)"
  shows "fst (deleteTodo (req\<lparr>user := caller, params_id := t_id T\<rparr>) w)
           = successResponse DNull ''Todo deleted successfully''"
    and "T \<notin> set (todos (snd (deleteTodo (req\<lparr>user := caller, params_id := t_id T\<rparr>) w)))"
    and "\<exists>r. fst (getTodoById (req\<lparr>user := caller, params_id := t_id T\<rparr>) w)
               = successResponse (DTodo r) ''Todo fetched successfully''
             \<and> r \<in> set (todos w) \<and> t_id r = t_id T"
    and "fst (updateTodo (req\<lparr>user := caller, params_id := t_id T, b_completed := Some done\<rparr>) w)
           = successResponse (DTodoFields (t_id T) (b_name req) (b_listId req) done)
               ''Todo updated successfully''"
proof -
  have ne: "filter (\<lambda>r. t_id r = t_id T) (todos w) \<noteq> []"
    by (rule filter_present[OF row])
  then have len: "length (filter (\<lambda>r. t_id r = t_id T) (todos w)) \<noteq> 0"
    by simp
  show "fst (deleteTodo (req\<lparr>user := caller, params_id := t_id T\<rparr>) w)
           = successResponse DNull ''Todo deleted successfully''"
    using len by (simp add: deleteTodo_def Todo_remove_eq[OF nofault])
  show "T \<notin> set (todos (snd (deleteTodo (req\<lparr>user := caller, params_id := t_id T\<rparr>) w)))"
    using len by (simp add: deleteTodo_def Todo_remove_eq[OF nofault])
  obtain r rs where f: "filter (\<lambda>r. t_id r = t_id T) (todos w) = r # rs"
    using ne by (cases "filter (\<lambda>r. t_id r = t_id T) (todos w)") auto
  then have "r \<in> set (filter (\<lambda>r. t_id r = t_id T) (todos w))"
    by simp
  then have rin: "r \<in> set (todos w) \<and> t_id r = t_id T"
    by simp
  have "fst (getTodoById (req\<lparr>user := caller, params_id := t_id T\<rparr>) w)
               = successResponse (DTodo r) ''Todo fetched successfully''"
    by (simp add: getTodoById_def Todo_getTodoById_eq[OF nofault] f)
  with rin show "\<exists>r. fst (getTodoById (req\<lparr>user := caller, params_id := t_id T\<rparr>) w)
               = successResponse (DTodo r) ''Todo fetched successfully''
             \<and> r \<in> set (todos w) \<and> t_id r = t_id T"
    by blast
  show "fst (updateTodo (req\<lparr>user := caller, params_id := t_id T, b_completed := Some done\<rparr>) w)
           = successResponse (DTodoFields (t_id T) (b_name req) (b_listId req) done)
               ''Todo updated successfully''"
    using len by (simp add: updateTodo_def Todo_update_eq[OF nofault])
qed

lemma world_todo_fields:
  "faults world_todo = []" "todos world_todo = [todo_T]" "clock world_todo = 1000"
  "lists world_todo = [list_A, list_B]"
  by (simp_all add: world_todo_def world_two_def world_empty_def)

lemma req_todo_fields:
  "params_id req_todo = 7" "b_name req_todo = ''Stolen''" "b_listId req_todo = 2"
  "b_completed req_todo = Some True"
  "user req_todo = Some \<lparr>c_id = 2, c_email = ''luigi@test.it''\<rparr>"
  by (simp_all add: req_todo_def req_lists_def)

text \<open>
  Claim C2. The Todo model takes no caller and never reads the \<open>lists\<close> table, where
  ownership is kept. When the store answers, \<open>remove\<close> deletes exactly the rows with the
  given todo id and reports how many there were, \<open>update\<close> rewrites exactly those rows,
  \<open>getTodoById\<close> returns exactly those rows, \<open>findAllByListId\<close> returns exactly the rows
  with the list id it is given, and \<open>create\<close> appends a row under the list id it is
  given. So for any todo \<open>T\<close> in the table, any caller and any content \<open>ls\<close> of the
  \<open>lists\<close> table, hence whoever owns the list of \<open>T\<close>: \<open>deleteTodo\<close> answers
  \<open>Todo deleted successfully\<close> and \<open>T\<close> is gone, \<open>getTodoById\<close> returns a todo with that
  id, and \<open>updateTodo\<close> answers \<open>Todo updated successfully\<close>. In any state \<open>w'\<close>, faulty
  or not, replacing the \<open>lists\<close> table changes neither what the five operations return
  nor what they do to the store, and the handlers of the Todo controller answer the same
  whoever \<open>req.user\<close> is.
\<close>

theorem todo_operations_ignore_owner:
  assumes nofault: "faults w = []" and row: "T \<in> set (todos w)"
  shows "Todo_remove t w =
           (Inr (length (filter (\<lambda>r. t_id r = t) (todos w))),
            (record_event (Sql DeleteTodo) w)\<lparr>todos := filter (\<lambda>r. t_id r \<noteq> t) (todos w)\<rparr>)
       \<and> Todo_update name completed t listId w =
           (Inr (length (filter (\<lambda>r. t_id r = t) (todos w))),
            (record_event (Sql UpdateTodo) w)
              \<lparr>todos := map (\<lambda>r. if t_id r = t
                                   then r\<lparr>t_name := name, t_completed := completed,
                                          t_list_id := listId, t_updated_at := Some (clock w)\<rparr>
                                   else r) (todos w)\<rparr>)
       \<and> Todo_getTodoById t w =
           (Inr (filter (\<lambda>r. t_id r = t) (todos w)), record_event (Sql SelectTodoById) w)
       \<and> Todo_findAllByListId listId w =
           (Inr (filter (\<lambda>r. t_list_id r = listId) (todos w)),
            record_event (Sql SelectTodosByList) w)
       \<and> Todo_create name listId c w =
           (Inr (next_todo_id w),
            (record_event (Sql InsertTodo) w)
              \<lparr>todos := todos w @
                         [\<lparr>t_id = next_todo_id w, t_name = name, t_list_id = listId,
                           t_completed = (case c of None \<Rightarrow> False | Some b \<Rightarrow> b),
                           t_created_at = clock w, t_updated_at = None\<rparr>],
                next_todo_id := next_todo_id w + 1\<rparr>)
       \<and> fst (deleteTodo (req\<lparr>user := caller, params_id := t_id T\<rparr>) (w\<lparr>lists := ls\<rparr>))
           = successResponse DNull ''Todo deleted successfully''
       \<and> T \<notin> set (todos (snd (deleteTodo (req\<lparr>user := caller, params_id := t_id T\<rparr>)
                                  (w\<lparr>lists := ls\<rparr>))))
       \<and> (\<exists>r. fst (getTodoById (req\<lparr>user := caller, params_id := t_id T\<rparr>) (w\<lparr>lists := ls\<rparr>))
                 = successResponse (DTodo r) ''Todo fetched successfully''
               \<and> r \<in> set (todos w) \<and> t_id r = t_id T)
       \<and> fst (updateTodo (req\<lparr>user := caller, params_id := t_id T, b_completed := Some done\<rparr>)
                (w\<lparr>lists := ls\<rparr>))
           = successResponse (DTodoFields (t_id T) (b_name req) (b_listId req) done)
               ''Todo updated successfully''
       \<and> Todo_remove t (w'\<lparr>lists := ls\<rparr>)
           = (fst (Todo_remove t w'), (snd (Todo_remove t w'))\<lparr>lists := ls\<rparr>)
       \<and> Todo_update name completed t listId (w'\<lparr>lists := ls\<rparr>)
           = (fst (Todo_update name completed t listId w'),
              (snd (Todo_update name completed t listId w'))\<lparr>lists := ls\<rparr>)
       \<and> Todo_getTodoById t (w'\<lparr>lists := ls\<rparr>)
           = (fst (Todo_getTodoById t w'), (snd (Todo_getTodoById t w'))\<lparr>lists := ls\<rparr>)
       \<and> Todo_create name listId c (w'\<lparr>lists := ls\<rparr>)
           = (fst (Todo_create name listId c w'),
              (snd (Todo_create name listId c w'))\<lparr>lists := ls\<rparr>)
       \<and> Todo_findAllByListId listId (w'\<lparr>lists := ls\<rparr>)
           = (fst (Todo_findAllByListId listId w'),
              (snd (Todo_findAllByListId listId w'))\<lparr>lists := ls\<rparr>)
       \<and> deleteTodo (req\<lparr>user := caller\<rparr>) w' = deleteTodo req w'
       \<and> updateTodo (req\<lparr>user := caller\<rparr>) w' = updateTodo req w'
       \<and> getTodoById (req\<lparr>user := caller\<rparr>) w' = getTodoById req w'
       \<and> createTodo (req\<lparr>user := caller\<rparr>) w' = createTodo req w'
       \<and> getTodos (req\<lparr>user := caller\<rparr>) w' = getTodos req w'"
proof -
  have nofault': "faults (w\<lparr>lists := ls\<rparr>) = []"
    using nofault by simp
  have row': "T \<in> set (todos (w\<lparr>lists := ls\<rparr>))"
    using row by simp
  note h = todo_handlers_on_any_row[OF nofault' row', where req = req and caller = caller]
  have g: "\<exists>r. fst (getTodoById (req\<lparr>user := caller, params_id := t_id T\<rparr>) (w\<lparr>lists := ls\<rparr>))
                 = successResponse (DTodo r) ''Todo fetched successfully''
               \<and> r \<in> set (todos w) \<and> t_id r = t_id T"
    using h(3) by simp
  show ?thesis
  proof (intro conjI)
    show "Todo_remove t w =
           (Inr (length (filter (\<lambda>r. t_id r = t) (todos w))),
            (record_event (Sql DeleteTodo) w)\<lparr>todos := filter (\<lambda>r. t_id r \<noteq> t) (todos w)\<rparr>)"
      by (rule Todo_remove_eq[OF nofault])
    show "Todo_update name completed t listId w =
           (Inr (length (filter (\<lambda>r. t_id r = t) (todos w))),
            (record_event (Sql UpdateTodo) w)
              \<lparr>todos := map (\<lambda>r. if t_id r = t
                                   then r\<lparr>t_name := name, t_completed := completed,
                                          t_list_id := listId, t_updated_at := Some (clock w)\<rparr>
                                   else r) (todos w)\<rparr>)"
      by (rule Todo_update_eq[OF nofault])
    show "Todo_getTodoById t w =
           (Inr (filter (\<lambda>r. t_id r = t) (todos w)), record_event (Sql SelectTodoById) w)"
      by (rule Todo_getTodoById_eq[OF nofault])
    show "Todo_findAllByListId listId w =
           (Inr (filter (\<lambda>r. t_list_id r = listId) (todos w)),
            record_event (Sql SelectTodosByList) w)"
      by (rule Todo_findAllByListId_eq[OF nofault])
    show "Todo_create name listId c w =
           (Inr (next_todo_id w),
            (record_event (Sql InsertTodo) w)
              \<lparr>todos := todos w @
                         [\<lparr>t_id = next_todo_id w, t_name = name, t_list_id = listId,
                           t_completed = (case c of None \<Rightarrow> False | Some b \<Rightarrow> b),
                           t_created_at = clock w, t_updated_at = None\<rparr>],
                next_todo_id := next_todo_id w + 1\<rparr>)"
      by (rule Todo_create_eq[OF nofault])
    show "fst (deleteTodo (req\<lparr>user := caller, params_id := t_id T\<rparr>) (w\<lparr>lists := ls\<rparr>))
           = successResponse DNull ''Todo deleted successfully''"
      by (rule h(1))
    show "T \<notin> set (todos (snd (deleteTodo (req\<lparr>user := caller, params_id := t_id T\<rparr>)
                                  (w\<lparr>lists := ls\<rparr>))))"
      by (rule h(2))
    show "\<exists>r. fst (getTodoById (req\<lparr>user := caller, params_id := t_id T\<rparr>) (w\<lparr>lists := ls\<rparr>))
                 = successResponse (DTodo r) ''Todo fetched successfully''
               \<and> r \<in> set (todos w) \<and> t_id r = t_id T"
      by (rule g)
    show "fst (updateTodo (req\<lparr>user := caller, params_id := t_id T, b_completed := Some done\<rparr>)
                (w\<lparr>lists := ls\<rparr>))
           = successResponse (DTodoFields (t_id T) (b_name req) (b_listId req) done)
               ''Todo updated successfully''"
      by (rule h(4))
    show "Todo_remove t (w'\<lparr>lists := ls\<rparr>)
       = (fst (Todo_remove t w'), (snd (Todo_remove t w'))\<lparr>lists := ls\<rparr>)"
      by (simp add: Todo_remove_def db_call_lists_upd case_prod_beta)
    show "Todo_update name completed t listId (w'\<lparr>lists := ls\<rparr>)
       = (fst (Todo_update name completed t listId w'),
          (snd (Todo_update name completed t listId w'))\<lparr>lists := ls\<rparr>)"
      by (simp add: Todo_update_def db_call_lists_upd case_prod_beta)
    show "Todo_getTodoById t (w'\<lparr>lists := ls\<rparr>)
       = (fst (Todo_getTodoById t w'), (snd (Todo_getTodoById t w'))\<lparr>lists := ls\<rparr>)"
      by (simp add: Todo_getTodoById_def db_call_lists_upd case_prod_beta)
    show "Todo_create name listId c (w'\<lparr>lists := ls\<rparr>)
       = (fst (Todo_create name listId c w'),
          (snd (Todo_create name listId c w'))\<lparr>lists := ls\<rparr>)"
      by (simp add: Todo_create_def db_call_lists_upd case_prod_beta)
    show "Todo_findAllByListId listId (w'\<lparr>lists := ls\<rparr>)
       = (fst (Todo_findAllByListId listId w'),
          (snd (Todo_findAllByListId listId w'))\<lparr>lists := ls\<rparr>)"
      by (simp add: Todo_findAllByListId_def db_call_lists_upd case_prod_beta)
    show "deleteTodo (req\<lparr>user := caller\<rparr>) w' = deleteTodo req w'"
      by (simp add: deleteTodo_def)
    show "updateTodo (req\<lparr>user := caller\<rparr>) w' = updateTodo req w'"
      by (simp add: updateTodo_def split: option.split prod.split sum.split)
    show "getTodoById (req\<lparr>user := caller\<rparr>) w' = getTodoById req w'"
      by (simp add: getTodoById_def)
    show "createTodo (req\<lparr>user := caller\<rparr>) w' = createTodo req w'"
      by (simp add: createTodo_def split: option.split prod.split sum.split)
    show "getTodos (req\<lparr>user := caller\<rparr>) w' = getTodos req w'"
      by (simp add: getTodos_def)
  qed
qed

text \<open>
  An instance: todo 7 belongs to list 1, which user 1 owns. User 2 deletes it, reads it,
  and moves it to list 2 under a new name.
\<close>

theorem todo_operations_ignore_owner_witness:
  "faults world_todo = []
   \<and> todo_T \<in> set (todos world_todo)
   \<and> t_list_id todo_T = l_id list_A
   \<and> list_A \<in> set (lists world_todo)
   \<and> l_user_id list_A = 1
   \<and> user req_todo = Some \<lparr>c_id = 2, c_email = ''luigi@test.it''\<rparr>
   \<and> params_id req_todo = t_id todo_T
   \<and> fst (deleteTodo req_todo world_todo)
       = \<lparr>status = 200, body = Success DNull ''Todo deleted successfully''\<rparr>
   \<and> todos (snd (deleteTodo req_todo world_todo)) = []
   \<and> fst (getTodoById req_todo world_todo)
       = \<lparr>status = 200, body = Success (DTodo todo_T) ''Todo fetched successfully''\<rparr>
   \<and> fst (updateTodo req_todo world_todo)
       = \<lparr>status = 200,
          body = Success (DTodoFields 7 ''Stolen'' 2 True) ''Todo updated successfully''\<rparr>
   \<and> todos (snd (updateTodo req_todo world_todo))
       = [todo_T\<lparr>t_name := ''Stolen'', t_completed := True, t_list_id := 2,
                 t_updated_at := Some 1000\<rparr>]"
proof -
  have f: "faults world_todo = []"
    by (rule world_todo_fields(1))
  have m: "todo_T \<in> set (todos world_todo)"
    by (simp add: world_todo_fields)
  note T = todo_operations_ignore_owner[OF f m, where t = 7 and name = "''Stolen''"
             and completed = True and listId = 2]
  have rem: "Todo_remove 7 world_todo =
           (Inr (length (filter (\<lambda>r. t_id r = 7) (todos world_todo))),
            (record_event (Sql DeleteTodo) world_todo)
              \<lparr>todos := filter (\<lambda>r. t_id r \<noteq> 7) (todos world_todo)\<rparr>)"
    using T by blast
  have upd: "Todo_update ''Stolen'' True 7 2 world_todo =
           (Inr (length (filter (\<lambda>r. t_id r = 7) (todos world_todo))),
            (record_event (Sql UpdateTodo) world_todo)
              \<lparr>todos := map (\<lambda>r. if t_id r = 7
                                   then r\<lparr>t_name := ''Stolen'', t_completed := True,
                                          t_list_id := 2, t_updated_at := Some (clock world_todo)\<rparr>
                                   else r) (todos world_todo)\<rparr>)"
    using T by blast
  have get: "Todo_getTodoById 7 world_todo =
           (Inr (filter (\<lambda>r. t_id r = 7) (todos world_todo)),
            record_event (Sql SelectTodoById) world_todo)"
    using T by blast
  have id7: "t_id todo_T = 7" "t_list_id todo_T = 1"
    by (simp_all add: todo_T_def)
  have c1: "fst (deleteTodo req_todo world_todo)
       = \<lparr>status = 200, body = Success DNull ''Todo deleted successfully''\<rparr>"
    by (simp add: deleteTodo_def req_todo_fields rem world_todo_fields id7 successResponse_def)
  have c2: "todos (snd (deleteTodo req_todo world_todo)) = []"
    by (simp add: deleteTodo_def req_todo_fields rem world_todo_fields id7)
  have c3: "fst (getTodoById req_todo world_todo)
       = \<lparr>status = 200, body = Success (DTodo todo_T) ''Todo fetched successfully''\<rparr>"
    by (simp add: getTodoById_def req_todo_fields get world_todo_fields id7 successResponse_def)
  have c4: "fst (updateTodo req_todo world_todo)
       = \<lparr>status = 200,
          body = Success (DTodoFields 7 ''Stolen'' 2 True) ''Todo updated successfully''\<rparr>"
    by (simp add: updateTodo_def req_todo_fields upd world_todo_fields id7 successResponse_def)
  have c5: "todos (snd (updateTodo req_todo world_todo))
       = [todo_T\<lparr>t_name := ''Stolen'', t_completed := True, t_list_id := 2,
                 t_updated_at := Some 1000\<rparr>]"
    by (simp add: updateTodo_def req_todo_fields upd world_todo_fields id7)
  have c0: "t_list_id todo_T = l_id list_A" "l_user_id list_A = 1"
    "list_A \<in> set (lists world_todo)" "params_id req_todo = t_id todo_T"
    by (simp_all add: id7 list_A_def world_todo_fields req_todo_fields)
  show ?thesis
    using f m c0 c1 c2 c3 c4 c5 req_todo_fields(5) by (intro conjI)
qed

section \<open>The Authorization Gate\<close>

lemma gate_no_header:
  "authorization req = None \<Longrightarrow>
   authMiddleware L E req w = (Respond (errorResponse ''Unauthorized'' 401 None), w)"
  by (simp add: authMiddleware_def)

lemma protected_no_header:
  "authorization req = None \<Longrightarrow>
   protected L E r rest req w = (errorResponse ''Unauthorized'' 401 None, w)"
  by (simp add: protected_def gate_no_header)

text \<open>
  Claim C3. A request without an \<open>Authorization\<close> header is answered by the gate with
  status 401 and the message \<open>Unauthorized\<close>. Behind the gate no router runs, whatever
  the router is: the answer is the gate's and the state is the state before the request,
  with nothing added to the record of calls to the store or the libraries. This holds
  for every path under \<open>/api/lists\<close> and \<open>/api/todos\<close>.
\<close>

theorem gate_rejects_missing_header:
  assumes "authorization req = None"
  shows "authMiddleware L E req w = (Respond (errorResponse ''Unauthorized'' 401 None), w)
       \<and> protected L E r rest req w = (errorResponse ''Unauthorized'' 401 None, w)
       \<and> (prefix [''api'', ''lists''] (path req) \<or> prefix [''api'', ''todos''] (path req) \<longrightarrow>
            app L E todoRoutes req w = (errorResponse ''Unauthorized'' 401 None, w))
       \<and> status (errorResponse ''Unauthorized'' 401 None) = 401"
  using assms
  by (auto simp: gate_no_header protected_no_header app_def mounted_def errorResponse_def)

theorem gate_rejects_missing_header_witness:
  "app toy_libs env_set (\<lambda>r w. None) req_lists world_two
     = (\<lparr>status = 401, body = Failure ''Unauthorized'' None\<rparr>, world_two)
   \<and> log world_two = []"
proof -
  have a: "authorization req_lists = None"
    by (simp add: req_lists_def)
  have p: "prefix [''api'', ''lists''] (path req_lists)
             \<or> prefix [''api'', ''todos''] (path req_lists)"
    by (simp add: req_lists_def)
  from gate_rejects_missing_header[OF a, where L = toy_libs and E = env_set
      and w = world_two and todoRoutes = "\<lambda>r w. None"] p
  have "app toy_libs env_set (\<lambda>r w. None) req_lists world_two
          = (errorResponse ''Unauthorized'' 401 None, world_two)"
    by blast
  then show ?thesis
    by (simp add: errorResponse_def world_two_def world_empty_def)
qed

section \<open>Facts about the User model and the auth controller\<close>

lemma findByEmail_fst:
  "fst (User_findByEmail email w) =
     (if fst (db_call SelectUserByEmail w)
      then Inr (case filter (\<lambda>u. u_email u = email) (users w) of
                  [] \<Rightarrow> None | r # _ \<Rightarrow> Some r)
      else Inl DbError)"
  by (simp add: User_findByEmail_def case_prod_beta)

lemma findByEmail_snd: "snd (User_findByEmail email w) = snd (db_call SelectUserByEmail w)"
  by (simp add: User_findByEmail_def case_prod_beta)

lemma User_create_fst:
  "fst (User_create L name email (Some password) w) =
     (if fst (db_call InsertUser w) then Inr (next_user_id w) else Inl DbError)"
  by (simp add: User_create_def bcrypt_hash_call_def Let_def case_prod_beta db_call_ok
      record_event_def)

lemma User_create_no_string:
  "User_create L name email None w = (Inl BcryptError, record_event BcryptHash w)"
  by (simp add: User_create_def bcrypt_hash_call_def)

lemma User_create_id:
  "fst (User_create L name email password w) = Inr uid \<Longrightarrow> uid = next_user_id w"
  by (cases password) (auto simp: User_create_fst User_create_no_string split: if_splits)

lemma User_create_clock [simp]: "clock (snd (User_create L name email password w)) = clock w"
  by (cases password)
    (simp_all add: User_create_def bcrypt_hash_call_def Let_def case_prod_beta record_event_def)

lemma User_create_users:
  "users (snd (User_create L name email (Some password) w)) =
     (if fst (db_call InsertUser w) then users w @ [new_user L name email password w]
      else users w)"
  by (simp add: User_create_def bcrypt_hash_call_def Let_def case_prod_beta db_call_ok
      record_event_def new_user_def)

lemma issue_token_snd: "snd (issue_token L E f c w) = record_event JwtSign w"
  by (simp add: issue_token_def Let_def split: sum.split)

lemma issue_token_fst:
  "fst (issue_token L E f c w) =
     (case jwt_sign L c (signing_secret E) (JWT_TTL E) (clock w) of
        Inl e \<Rightarrow> errorResponse f 500 (Some e)
      | Inr token \<Rightarrow>
          successResponse (DToken token (expiryDate (clock w) (JWT_TTL E))) default_message)"
  by (simp add: issue_token_def Let_def record_event_def split: sum.split)

lemma issue_token_ok:
  assumes "status (fst (issue_token L E f c w)) = 200"
  shows "\<exists>tok. jwt_sign L c (signing_secret E) (JWT_TTL E) (clock w) = Inr tok
             \<and> fst (issue_token L E f c w)
                 = successResponse (DToken tok (expiryDate (clock w) (JWT_TTL E)))
                     default_message"
  using assms by (auto simp: issue_token_fst errorResponse_def split: sum.splits)

text \<open>The answers of \<open>register\<close> and \<open>login\<close>, branch by branch.\<close>

lemma register_fst:
  "fst (register L E name email password w) =
     (case fst (User_findByEmail email w) of
        Inl e \<Rightarrow> errorResponse ''Error registering user'' 500 (Some e)
      | Inr (Some existing) \<Rightarrow> errorResponse ''Email is already registered'' 409 None
      | Inr None \<Rightarrow>
          (case fst (User_create L name email password (snd (User_findByEmail email w))) of
             Inl e \<Rightarrow> errorResponse ''Error registering user'' 500 (Some e)
           | Inr userId \<Rightarrow>
               fst (issue_token L E ''Error registering user''
                      \<lparr>c_id = userId, c_email = email\<rparr>
                      (snd (User_create L name email password
                              (snd (User_findByEmail email w)))))))"
  by (simp add: register_def split: prod.split sum.split option.split)

lemma login_fst:
  "fst (login L E email password w) =
     (case fst (User_findByEmail email w) of
        Inl e \<Rightarrow> errorResponse ''Error logging in user'' 500 (Some e)
      | Inr None \<Rightarrow> errorResponse ''Invalid email or password'' 401 None
      | Inr (Some usr) \<Rightarrow>
          (case password of
             None \<Rightarrow> errorResponse ''Error logging in user'' 500 (Some BcryptError)
           | Some p \<Rightarrow>
               if \<not> bcrypt_compare L p (u_password usr)
               then errorResponse ''Invalid email or password'' 401 None
               else fst (issue_token L E ''Error logging in user''
                           \<lparr>c_id = u_id usr, c_email = u_email usr\<rparr>
                           (record_event BcryptCompare (snd (User_findByEmail email w))))))"
  by (simp add: login_def bcrypt_compare_call_def Let_def
      split: prod.split sum.split option.split)

lemma register_existing:
  assumes "fst (User_findByEmail email w) = Inr (Some existing)"
  shows "register L E name email password w
           = (errorResponse ''Email is already registered'' 409 None,
              snd (db_call SelectUserByEmail w))"
proof -
  obtain r w1 where p: "User_findByEmail email w = (r, w1)"
    by (cases "User_findByEmail email w")
  with assms have "r = Inr (Some existing)"
    by simp
  moreover from p have "w1 = snd (db_call SelectUserByEmail w)"
    using findByEmail_snd[of email w] by simp
  ultimately show ?thesis
    using p by (simp add: register_def)
qed

lemma register_fresh:
  assumes fresh: "filter (\<lambda>u. u_email u = email) (users w) = []" and nofault: "faults w = []"
  shows "register L E name email (Some password) w =
     issue_token L E ''Error registering user'' \<lparr>c_id = next_user_id w, c_email = email\<rparr>
       (w\<lparr>users := users w @ [new_user L name email password w],
          next_user_id := next_user_id w + 1,
          entropy := entropy w + 1,
          log := log w @ [Sql SelectUserByEmail, BcryptHash, Sql InsertUser]\<rparr>)"
proof -
  have f: "User_findByEmail email w = (Inr None, record_event (Sql SelectUserByEmail) w)"
    using fresh
    by (simp add: User_findByEmail_def db_call_no_fault[OF nofault] record_event_def)
  have c: "User_create L name email (Some password) (record_event (Sql SelectUserByEmail) w) =
     (Inr (next_user_id w),
      w\<lparr>users := users w @ [new_user L name email password w],
          next_user_id := next_user_id w + 1,
          entropy := entropy w + 1,
          log := log w @ [Sql SelectUserByEmail, BcryptHash, Sql InsertUser]\<rparr>)"
    using nofault
    by (simp add: User_create_def bcrypt_hash_call_def Let_def db_call_def record_event_def
        new_user_def)
  show ?thesis
    by (simp add: register_def f c)
qed

lemma login_unknown:
  assumes "fst (User_findByEmail email w) = Inr None"
  shows "login L E email password w
           = (errorResponse ''Invalid email or password'' 401 None,
              snd (User_findByEmail email w))"
proof -
  obtain r w1 where p: "User_findByEmail email w = (r, w1)"
    by (cases "User_findByEmail email w")
  with assms have "r = Inr None"
    by simp
  with p show ?thesis
    by (simp add: login_def)
qed

lemma login_known:
  assumes "fst (User_findByEmail email w) = Inr (Some usr)"
  shows "login L E email (Some password) w =
     (if \<not> bcrypt_compare L password (u_password usr)
      then (errorResponse ''Invalid email or password'' 401 None,
            record_event BcryptCompare (snd (User_findByEmail email w)))
      else issue_token L E ''Error logging in user''
             \<lparr>c_id = u_id usr, c_email = u_email usr\<rparr>
             (record_event BcryptCompare (snd (User_findByEmail email w))))"
proof -
  obtain r w1 where p: "User_findByEmail email w = (r, w1)"
    by (cases "User_findByEmail email w")
  with assms have "r = Inr (Some usr)"
    by simp
  with p show ?thesis
    by (simp add: login_def bcrypt_compare_call_def Let_def)
qed

lemma login_known_no_string:
  assumes "fst (User_findByEmail email w) = Inr (Some usr)"
  shows "login L E email None w =
     (errorResponse ''Error logging in user'' 500 (Some BcryptError),
      record_event BcryptCompare (snd (User_findByEmail email w)))"
proof -
  obtain r w1 where p: "User_findByEmail email w = (r, w1)"
    by (cases "User_findByEmail email w")
  with assms have "r = Inr (Some usr)"
    by simp
  with p show ?thesis
    by (simp add: login_def bcrypt_compare_call_def Let_def)
qed

text \<open>A 200 from \<open>register\<close> or \<open>login\<close> is the answer of the signing branch.\<close>

lemma register_ok:
  assumes "status (fst (register L E name email password w)) = 200"
  shows "\<exists>tok. jwt_sign L \<lparr>c_id = next_user_id w, c_email = email\<rparr> (signing_secret E)
                 (JWT_TTL E) (clock w) = Inr tok
             \<and> fst (register L E name email password w)
                 = successResponse (DToken tok (expiryDate (clock w) (JWT_TTL E)))
                     default_message"
proof -
  let ?w1 = "snd (User_findByEmail email w)"
  let ?w2 = "snd (User_create L name email password ?w1)"
  from assms have f: "fst (User_findByEmail email w) = Inr None"
    by (auto simp: register_fst errorResponse_def split: sum.splits option.splits)
  with assms obtain uid where c: "fst (User_create L name email password ?w1) = Inr uid"
    by (auto simp: register_fst errorResponse_def split: sum.splits)
  then have uid: "uid = next_user_id w"
    using User_create_id[of L name email password ?w1 uid] by (simp add: findByEmail_snd)
  have r: "fst (register L E name email password w)
      = fst (issue_token L E ''Error registering user'' \<lparr>c_id = uid, c_email = email\<rparr> ?w2)"
    by (simp add: register_fst f c)
  have ck: "clock ?w2 = clock w"
    by (simp add: findByEmail_snd)
  from assms r have "status (fst (issue_token L E ''Error registering user''
       \<lparr>c_id = uid, c_email = email\<rparr> ?w2)) = 200"
    by simp
  from issue_token_ok[OF this] show ?thesis
    unfolding r uid ck by simp
qed

lemma login_ok:
  assumes "status (fst (login L E email password w)) = 200"
  shows "\<exists>tok usr p. fst (User_findByEmail email w) = Inr (Some usr)
             \<and> password = Some p
             \<and> bcrypt_compare L p (u_password usr)
             \<and> jwt_sign L \<lparr>c_id = u_id usr, c_email = u_email usr\<rparr> (signing_secret E)
                 (JWT_TTL E) (clock w) = Inr tok
             \<and> fst (login L E email password w)
                 = successResponse (DToken tok (expiryDate (clock w) (JWT_TTL E)))
                     default_message"
proof -
  from assms obtain usr where f: "fst (User_findByEmail email w) = Inr (Some usr)"
    by (auto simp: login_fst errorResponse_def split: sum.splits option.splits)
  with assms obtain p where pw: "password = Some p"
    by (auto simp: login_fst errorResponse_def split: option.splits)
  with assms f have cmp: "bcrypt_compare L p (u_password usr)"
    by (auto simp: login_fst errorResponse_def split: if_splits)
  let ?w2 = "record_event BcryptCompare (snd (User_findByEmail email w))"
  have r: "fst (login L E email password w)
      = fst (issue_token L E ''Error logging in user''
               \<lparr>c_id = u_id usr, c_email = u_email usr\<rparr> ?w2)"
    by (simp add: login_fst f pw cmp)
  have ck: "clock ?w2 = clock w"
    by (simp add: record_event_def findByEmail_snd)
  from assms r have "status (fst (issue_token L E ''Error logging in user''
       \<lparr>c_id = u_id usr, c_email = u_email usr\<rparr> ?w2)) = 200"
    by simp
  from issue_token_ok[OF this] f pw cmp show ?thesis
    unfolding r ck by auto
qed

lemma decimal_3600: "decimal ''3600'' = 3600"
  by (simp add: decimal_def digit_value_def)

text \<open>The sample state and what the sample calls find in it.\<close>

lemma world_two_fields:
  "users world_two = [mario]" "faults world_two = []" "clock world_two = 1000"
  "next_user_id world_two = 2" "entropy world_two = 0" "log world_two = []"
  by (simp_all add: world_two_def world_empty_def)

lemma toy_hash [simp]: "bcrypt_hash toy_libs p r s = ''$2b$'' @ p"
  by (simp add: toy_libs_def)

lemma toy_compare [simp]: "bcrypt_compare toy_libs p h = (h = ''$2b$'' @ p)"
  by (simp add: toy_libs_def)

lemma toy_sign_some:
  "s \<noteq> [] \<Longrightarrow>
   jwt_sign toy_libs c k (Some s) now
     = Inr (k @ ''.'' @ replicate (nat (c_id c)) CHR ''i'' @ ''.'' @ c_email c)"
  by (simp add: toy_libs_def toy_sign_def)

lemma toy_verify_eq: "jwt_verify toy_libs = toy_verify"
  by (simp add: toy_libs_def)

lemma ttl_3600: "JWT_TTL env_set = Some ''3600''" "JWT_TTL env_unset = Some ''3600''"
  by (simp_all add: env_set_def env_unset_def)

lemma luigi_unknown: "filter (\<lambda>u. u_email u = ''luigi@test.it'') (users world_two) = []"
  by (simp add: world_two_fields mario_def)

lemma mario_known: "fst (User_findByEmail ''mario@test.it'' world_two) = Inr (Some mario)"
  by (simp add: findByEmail_fst db_call_ok world_two_fields mario_def)

lemma sample_register_status:
  "status (fst (register toy_libs env_set ''Luigi'' ''luigi@test.it'' (Some ''pw456'') world_two)) = 200"
  by (simp add: register_fresh[OF luigi_unknown world_two_fields(2)] issue_token_fst
      ttl_3600 toy_sign_some successResponse_def)

lemma sample_login_status:
  "status (fst (login toy_libs env_set ''mario@test.it'' (Some ''pw123'') world_two)) = 200"
  by (simp add: login_known[OF mario_known] mario_def issue_token_fst ttl_3600
      toy_sign_some successResponse_def)

lemma sample_register_status_unset:
  "status (fst (register toy_libs env_unset ''Luigi'' ''luigi@test.it'' (Some ''pw456'') world_two))
     = 200"
  by (simp add: register_fresh[OF luigi_unknown world_two_fields(2)] issue_token_fst
      ttl_3600 toy_sign_some successResponse_def)

lemma sample_login_status_unset:
  "status (fst (login toy_libs env_unset ''mario@test.it'' (Some ''pw123'') world_two)) = 200"
  by (simp add: login_known[OF mario_known] mario_def issue_token_fst ttl_3600
      toy_sign_some successResponse_def)

lemma sample_expiry: "expiryDate (clock world_two) (JWT_TTL env_set) = Date 3601000"
  by (simp add: expiryDate_def is_digit_def decimal_3600 max_time_def world_two_fields
      env_set_def)

section \<open>Login failures\<close>

text \<open>
  When the password sent is a string, a login with an email no user has and a login with
  a known email and a password that does not verify get the same response: status 401,
  message \<open>Invalid email or password\<close>, no error detail.
\<close>

lemma login_failures_equal_for_strings:
  assumes unknown: "fst (User_findByEmail email w) = Inr None"
    and known: "fst (User_findByEmail email' w') = Inr (Some usr)"
    and wrong: "\<not> bcrypt_compare L password' (u_password usr)"
  shows "fst (login L E email password w) = fst (login L E email' (Some password') w')
       \<and> fst (login L E email password w) = errorResponse ''Invalid email or password'' 401 None
       \<and> status (fst (login L E email password w)) = 401"
  using wrong
  by (simp add: login_unknown[OF unknown] login_known[OF known] errorResponse_def)

text \<open>
  Claim C4 says that for every login request the failure for an unknown email and the
  failure for a known email with a password that does not verify are the same response,
  so that an observer cannot tell which factor was wrong. The controller states this
  intent in its comment and its two 401 answers are equal, but it hands the password of
  the body to \<open>bcrypt.compare\<close> unchecked. For a body without a password the comparison
  rejects when the email is known and the \<open>catch\<close> answers 500 \<open>Error logging in user\<close>,
  while an unknown email is answered 401 before any comparison. Here Mario is registered
  and Luigi is not, and the same body but for the email gets two different answers, at
  \<open>login\<close> and at \<open>POST /api/auth/login\<close>.
\<close>

theorem login_missing_password_reveals_email:
  "fst (login toy_libs env_set ''mario@test.it'' None world_two)
     = \<lparr>status = 500, body = Failure ''Error logging in user'' (Some BcryptError)\<rparr>
   \<and> fst (login toy_libs env_set ''luigi@test.it'' None world_two)
     = \<lparr>status = 401, body = Failure ''Invalid email or password'' None\<rparr>
   \<and> fst (app toy_libs env_set todoRoutes_none (req_login ''mario@test.it'') world_two)
     = \<lparr>status = 500, body = Failure ''Error logging in user'' (Some BcryptError)\<rparr>
   \<and> fst (app toy_libs env_set todoRoutes_none (req_login ''luigi@test.it'') world_two)
     = \<lparr>status = 401, body = Failure ''Invalid email or password'' None\<rparr>
   \<and> fst (User_findByEmail ''mario@test.it'' world_two) = Inr (Some mario)
   \<and> fst (User_findByEmail ''luigi@test.it'' world_two) = Inr None"
proof -
  have u: "fst (User_findByEmail ''luigi@test.it'' world_two) = Inr None"
    by (simp add: findByEmail_fst db_call_ok world_two_fields mario_def)
  have a: "fst (login toy_libs env_set ''mario@test.it'' None world_two)
     = \<lparr>status = 500, body = Failure ''Error logging in user'' (Some BcryptError)\<rparr>"
    by (simp add: login_known_no_string[OF mario_known] errorResponse_def)
  have b: "fst (login toy_libs env_set ''luigi@test.it'' None world_two)
     = \<lparr>status = 401, body = Failure ''Invalid email or password'' None\<rparr>"
    by (simp add: login_unknown[OF u] errorResponse_def)
  have r: "\<And>e. app toy_libs env_set todoRoutes_none (req_login e) world_two
             = login toy_libs env_set e None world_two"
    by (simp add: app_def mounted_def authRoutes_def req_login_def req_lists_def)
  from a b u mario_known show ?thesis
    unfolding r by (intro conjI)
qed

section \<open>Registering an email twice\<close>

text \<open>
  Claim C5. When a user row with the email exists, \<open>register\<close> answers 409 \<open>Email is
  already registered\<close> and the only thing it has done is the lookup: the state after it is
  the state after that one SELECT, so nothing was hashed and nothing inserted. Hence,
  starting from a store without the email and with no storage failure, the first
  \<open>register\<close> inserts one row whose id is the one the store generated (\<open>User.create\<close>
  returns it, and it is the subject of the token the call answers with when signing
  succeeds), the second answers 409, and after both
  the store holds exactly that one row for the email; the second call has added to the
  record of calls only its SELECT.
\<close>

theorem register_conflict:
  assumes fresh: "filter (\<lambda>u. u_email u = email) (users w) = []" and nofault: "faults w = []"
  shows "(\<forall>w0 existing n p. fst (User_findByEmail email w0) = Inr (Some existing) \<longrightarrow>
            register L E n email p w0
              = (errorResponse ''Email is already registered'' 409 None,
                 snd (db_call SelectUserByEmail w0)))
       \<and> users (snd (register L E name email (Some password) w))
           = users w @ [new_user L name email password w]
       \<and> u_id (new_user L name email password w) = next_user_id w
       \<and> fst (User_create L name email (Some password) (snd (User_findByEmail email w)))
           = Inr (next_user_id w)
       \<and> (\<forall>tok. jwt_sign L \<lparr>c_id = next_user_id w, c_email = email\<rparr> (signing_secret E)
                   (JWT_TTL E) (clock w) = Inr tok \<longrightarrow>
            fst (register L E name email (Some password) w)
              = successResponse (DToken tok (expiryDate (clock w) (JWT_TTL E))) default_message)
       \<and> fst (register L E name' email password' (snd (register L E name email (Some password) w)))
           = errorResponse ''Email is already registered'' 409 None
       \<and> filter (\<lambda>u. u_email u = email)
            (users (snd (register L E name' email password'
                           (snd (register L E name email (Some password) w)))))
           = [new_user L name email password w]
       \<and> log (snd (register L E name' email password' (snd (register L E name email (Some password) w))))
           = log w @ [Sql SelectUserByEmail, BcryptHash, Sql InsertUser, JwtSign,
                      Sql SelectUserByEmail]"
proof -
  let ?w1 = "snd (register L E name email (Some password) w)"
  have w1: "?w1 = record_event JwtSign
       (w\<lparr>users := users w @ [new_user L name email password w],
          next_user_id := next_user_id w + 1,
          entropy := entropy w + 1,
          log := log w @ [Sql SelectUserByEmail, BcryptHash, Sql InsertUser]\<rparr>)"
    by (simp add: register_fresh[OF fresh nofault] issue_token_snd)
  have us: "users ?w1 = users w @ [new_user L name email password w]"
    by (simp add: w1 record_event_def)
  have fs: "faults ?w1 = []"
    by (simp add: w1 record_event_def nofault)
  have lg: "log ?w1 = log w @ [Sql SelectUserByEmail, BcryptHash, Sql InsertUser, JwtSign]"
    by (simp add: w1 record_event_def)
  have flt: "filter (\<lambda>u. u_email u = email) (users ?w1) = [new_user L name email password w]"
    by (simp add: us fresh new_user_def)
  have found: "fst (User_findByEmail email ?w1) = Inr (Some (new_user L name email password w))"
    by (simp add: findByEmail_fst flt db_call_ok fs)
  have second: "register L E name' email password' ?w1
      = (errorResponse ''Email is already registered'' 409 None,
         snd (db_call SelectUserByEmail ?w1))"
    by (rule register_existing[OF found])
  have first: "\<And>tok. jwt_sign L \<lparr>c_id = next_user_id w, c_email = email\<rparr> (signing_secret E)
                   (JWT_TTL E) (clock w) = Inr tok \<Longrightarrow>
            fst (register L E name email (Some password) w)
              = successResponse (DToken tok (expiryDate (clock w) (JWT_TTL E))) default_message"
    by (simp add: register_fresh[OF fresh nofault] issue_token_fst)
  show ?thesis
  proof (intro conjI allI impI)
    fix w0 existing n p
    assume "fst (User_findByEmail email w0) = Inr (Some existing)"
    then show "register L E n email p w0
              = (errorResponse ''Email is already registered'' 409 None,
                 snd (db_call SelectUserByEmail w0))"
      by (rule register_existing)
  next
    show "users ?w1 = users w @ [new_user L name email password w]"
      by (rule us)
  next
    show "u_id (new_user L name email password w) = next_user_id w"
      by (simp add: new_user_def)
  next
    show "fst (User_create L name email (Some password) (snd (User_findByEmail email w)))
           = Inr (next_user_id w)"
      by (simp add: User_create_fst findByEmail_snd db_call_ok db_call_faults nofault)
  next
    fix tok
    assume "jwt_sign L \<lparr>c_id = next_user_id w, c_email = email\<rparr> (signing_secret E)
              (JWT_TTL E) (clock w) = Inr tok"
    then show "fst (register L E name email (Some password) w)
              = successResponse (DToken tok (expiryDate (clock w) (JWT_TTL E))) default_message"
      by (rule first)
  next
    show "fst (register L E name' email password' ?w1)
           = errorResponse ''Email is already registered'' 409 None"
      by (simp add: second)
  next
    show "filter (\<lambda>u. u_email u = email) (users (snd (register L E name' email password' ?w1)))
           = [new_user L name email password w]"
      by (simp add: second flt)
  next
    show "log (snd (register L E name' email password' ?w1))
           = log w @ [Sql SelectUserByEmail, BcryptHash, Sql InsertUser, JwtSign,
                      Sql SelectUserByEmail]"
      by (simp add: second lg)
  qed
qed

theorem register_conflict_witness:
  "status (fst (register toy_libs env_set ''Mario'' ''mario@test.it'' (Some ''pw123'') world_empty)) = 200
   \<and> status (fst (register toy_libs env_set ''Luigi'' ''mario@test.it'' (Some ''other'')
        (snd (register toy_libs env_set ''Mario'' ''mario@test.it'' (Some ''pw123'') world_empty)))) = 409
   \<and> filter (\<lambda>u. u_email u = ''mario@test.it'')
        (users (snd (register toy_libs env_set ''Luigi'' ''mario@test.it'' (Some ''other'')
           (snd (register toy_libs env_set ''Mario'' ''mario@test.it'' (Some ''pw123'') world_empty)))))
       = [\<lparr>u_id = 1, u_name = ''Mario'', u_email = ''mario@test.it'',
           u_password = ''$2b$pw123'', u_created_at = 1000\<rparr>]
   \<and> register toy_libs env_set ''Luigi'' ''mario@test.it'' (Some ''other'') world_two
       = (\<lparr>status = 409, body = Failure ''Email is already registered'' None\<rparr>,
          world_two\<lparr>log := [Sql SelectUserByEmail]\<rparr>)"
proof -
  have fr: "filter (\<lambda>u. u_email u = ''mario@test.it'') (users world_empty) = []"
    by (simp add: world_empty_def)
  have nf: "faults world_empty = []"
    by (simp add: world_empty_def)
  note T = register_conflict[OF fr nf, where L = toy_libs and E = env_set
      and name = "''Mario''" and password = "''pw123''" and name' = "''Luigi''"
      and password' = "Some ''other''"]
  have nu: "new_user toy_libs ''Mario'' ''mario@test.it'' ''pw123'' world_empty
       = \<lparr>u_id = 1, u_name = ''Mario'', u_email = ''mario@test.it'',
           u_password = ''$2b$pw123'', u_created_at = 1000\<rparr>"
    by (simp add: new_user_def world_empty_def)
  have sg: "jwt_sign toy_libs \<lparr>c_id = next_user_id world_empty, c_email = ''mario@test.it''\<rparr>
       (signing_secret env_set) (JWT_TTL env_set) (clock world_empty)
         = Inr ''k.i.mario@test.it''"
    by (simp add: ttl_3600 toy_sign_some signing_secret_def env_set_def world_empty_def)
  from T sg have a: "fst (register toy_libs env_set ''Mario'' ''mario@test.it'' (Some ''pw123'')
                          world_empty)
      = successResponse
          (DToken ''k.i.mario@test.it'' (expiryDate (clock world_empty) (JWT_TTL env_set)))
          default_message"
    by blast
  from T have b: "fst (register toy_libs env_set ''Luigi'' ''mario@test.it'' (Some ''other'')
        (snd (register toy_libs env_set ''Mario'' ''mario@test.it'' (Some ''pw123'') world_empty)))
      = errorResponse ''Email is already registered'' 409 None"
    by (elim conjE)
  from T have c: "filter (\<lambda>u. u_email u = ''mario@test.it'')
        (users (snd (register toy_libs env_set ''Luigi'' ''mario@test.it'' (Some ''other'')
           (snd (register toy_libs env_set ''Mario'' ''mario@test.it'' (Some ''pw123'') world_empty)))))
       = [new_user toy_libs ''Mario'' ''mario@test.it'' ''pw123'' world_empty]"
    by (elim conjE)
  from T mario_known
  have e: "register toy_libs env_set ''Luigi'' ''mario@test.it'' (Some ''other'') world_two
       = (errorResponse ''Email is already registered'' 409 None,
          snd (db_call SelectUserByEmail world_two))"
    by blast
  have w: "snd (db_call SelectUserByEmail world_two) = world_two\<lparr>log := [Sql SelectUserByEmail]\<rparr>"
    by (simp add: db_call_no_fault[OF world_two_fields(2)] record_event_def world_two_fields)
  show ?thesis
    unfolding a b c nu e w by (simp add: successResponse_def errorResponse_def)
qed

section \<open>The expiry sent with a token\<close>

text \<open>
  Claim C7. Let the configured TTL be a number of seconds, written in decimal digits, and
  let the clock plus that many seconds be a time a \<open>Date\<close> can hold. Then every 200 of
  \<open>register\<close> and every 200 of \<open>login\<close> is a payload of a token and \<open>expiresAt\<close>, where
  \<open>expiresAt\<close> is the clock at the call plus 1000 ms for each second of the TTL.
\<close>

theorem token_expiry:
  assumes ttl: "JWT_TTL E = Some s" and digits: "list_all is_digit s"
    and range: "\<bar>clock w + decimal s * 1000\<bar> \<le> max_time"
  shows "(status (fst (register L E name email password w)) = 200 \<longrightarrow>
            (\<exists>tok. fst (register L E name email password w)
               = successResponse (DToken tok (Date (clock w + decimal s * 1000)))
                   default_message))
       \<and> (status (fst (login L E email password w)) = 200 \<longrightarrow>
            (\<exists>tok. fst (login L E email password w)
               = successResponse (DToken tok (Date (clock w + decimal s * 1000)))
                   default_message))
       \<and> expiryDate (clock w) (JWT_TTL E) = Date (clock w + decimal s * 1000)"
proof -
  have e: "expiryDate (clock w) (JWT_TTL E) = Date (clock w + decimal s * 1000)"
    using ttl digits range by (simp add: expiryDate_def)
  show ?thesis
  proof (intro conjI impI)
    assume "status (fst (register L E name email password w)) = 200"
    from register_ok[OF this]
    show "\<exists>tok. fst (register L E name email password w)
               = successResponse (DToken tok (Date (clock w + decimal s * 1000)))
                   default_message"
      unfolding e by blast
  next
    assume "status (fst (login L E email password w)) = 200"
    from login_ok[OF this]
    show "\<exists>tok. fst (login L E email password w)
               = successResponse (DToken tok (Date (clock w + decimal s * 1000)))
                   default_message"
      unfolding e by blast
  next
    show "expiryDate (clock w) (JWT_TTL E) = Date (clock w + decimal s * 1000)"
      by (rule e)
  qed
qed

text \<open>With a TTL of 3600 and the clock at 1000 ms, \<open>expiresAt\<close> is 3601000 ms.\<close>

theorem token_expiry_witness:
  "(\<exists>tok. fst (register toy_libs env_set ''Luigi'' ''luigi@test.it'' (Some ''pw456'') world_two)
      = \<lparr>status = 200,
         body = Success (DToken tok (Date 3601000)) ''Request completed successfully''\<rparr>)
   \<and> (\<exists>tok. fst (login toy_libs env_set ''mario@test.it'' (Some ''pw123'') world_two)
      = \<lparr>status = 200,
         body = Success (DToken tok (Date 3601000)) ''Request completed successfully''\<rparr>)"
proof -
  have t: "JWT_TTL env_set = Some ''3600''"
    by (simp add: env_set_def)
  have d: "list_all is_digit ''3600''"
    by (simp add: is_digit_def)
  have r: "\<bar>clock world_two + decimal ''3600'' * 1000\<bar> \<le> max_time"
    by (simp add: world_two_fields decimal_3600 max_time_def)
  note T = token_expiry[OF t d r, where L = toy_libs]
  from T sample_register_status
  have a: "\<exists>tok. fst (register toy_libs env_set ''Luigi'' ''luigi@test.it'' (Some ''pw456'') world_two)
      = successResponse (DToken tok (Date (clock world_two + decimal ''3600'' * 1000)))
          default_message"
    by blast
  from T sample_login_status
  have b: "\<exists>tok. fst (login toy_libs env_set ''mario@test.it'' (Some ''pw123'') world_two)
      = successResponse (DToken tok (Date (clock world_two + decimal ''3600'' * 1000)))
          default_message"
    by blast
  from a b show ?thesis
    by (simp add: world_two_fields decimal_3600 successResponse_def default_message_def)
qed

section \<open>The password digest\<close>

lemma first_row_map:
  "(case filter (\<lambda>u. u_email u = email) (map (\<lambda>u. u\<lparr>u_password := d u\<rparr>) us) of
      [] \<Rightarrow> None | r # _ \<Rightarrow> Some r)
   = map_option (\<lambda>u. u\<lparr>u_password := d u\<rparr>)
       (case filter (\<lambda>u. u_email u = email) us of [] \<Rightarrow> None | r # _ \<Rightarrow> Some r)"
  by (induction us) auto

lemma first_row_member:
  "(case filter P us of [] \<Rightarrow> None | r # _ \<Rightarrow> Some r) = Some u \<Longrightarrow> u \<in> set us"
  by (induction us) (auto split: if_splits)

lemma register_ignores_hash:
  "fst (register (L\<lparr>bcrypt_hash := h\<rparr>) E name email pw w)
     = fst (register L E name email pw w)"
  by (cases pw)
    (simp_all add: register_fst User_create_fst User_create_no_string issue_token_fst
      split: sum.split option.split)

lemma login_digest_hidden:
  assumes verdict:
    "\<forall>u \<in> set (users w). cmp password (d u) = bcrypt_compare L password (u_password u)"
  shows "fst (login (L\<lparr>bcrypt_compare := cmp\<rparr>) E email (Some password)
                (w\<lparr>users := map (\<lambda>u. u\<lparr>u_password := d u\<rparr>) (users w)\<rparr>))
           = fst (login L E email (Some password) w)"
proof -
  let ?w' = "w\<lparr>users := map (\<lambda>u. u\<lparr>u_password := d u\<rparr>) (users w)\<rparr>"
  let ?row = "case filter (\<lambda>u. u_email u = email) (users w) of
                [] \<Rightarrow> None | r # _ \<Rightarrow> Some r"
  have ok: "fst (db_call SelectUserByEmail ?w') = fst (db_call SelectUserByEmail w)"
    by (simp add: db_call_ok)
  have f': "fst (User_findByEmail email ?w') =
      (if fst (db_call SelectUserByEmail w)
       then Inr (map_option (\<lambda>u. u\<lparr>u_password := d u\<rparr>) ?row) else Inl DbError)"
    by (simp add: findByEmail_fst ok first_row_map)
  have f: "fst (User_findByEmail email w) =
      (if fst (db_call SelectUserByEmail w) then Inr ?row else Inl DbError)"
    by (simp add: findByEmail_fst)
  show ?thesis
  proof (cases "fst (db_call SelectUserByEmail w)")
    case False
    then show ?thesis
      by (simp add: login_fst f f')
  next
    case True
    show ?thesis
    proof (cases ?row)
      case None
      then show ?thesis
        using True by (simp add: login_fst f f')
    next
      case (Some u)
      then have "u \<in> set (users w)"
        by (rule first_row_member)
      with verdict have v: "cmp password (d u) = bcrypt_compare L password (u_password u)"
        by blast
      show ?thesis
        using True Some v
        by (simp add: login_fst f f' issue_token_fst findByEmail_snd record_event_def
            split: sum.split)
    qed
  qed
qed

lemma login_digest_hidden_no_string:
  "fst (login (L\<lparr>bcrypt_compare := cmp\<rparr>) E email None
          (w\<lparr>users := map (\<lambda>u. u\<lparr>u_password := d u\<rparr>) (users w)\<rparr>))
     = fst (login L E email None w)"
proof -
  let ?w' = "w\<lparr>users := map (\<lambda>u. u\<lparr>u_password := d u\<rparr>) (users w)\<rparr>"
  let ?row = "case filter (\<lambda>u. u_email u = email) (users w) of
                [] \<Rightarrow> None | r # _ \<Rightarrow> Some r"
  have ok: "fst (db_call SelectUserByEmail ?w') = fst (db_call SelectUserByEmail w)"
    by (simp add: db_call_ok)
  have f': "fst (User_findByEmail email ?w') =
      (if fst (db_call SelectUserByEmail w)
       then Inr (map_option (\<lambda>u. u\<lparr>u_password := d u\<rparr>) ?row) else Inl DbError)"
    by (simp add: findByEmail_fst ok first_row_map)
  have f: "fst (User_findByEmail email w) =
      (if fst (db_call SelectUserByEmail w) then Inr ?row else Inl DbError)"
    by (simp add: findByEmail_fst)
  show ?thesis
    by (cases ?row) (simp_all add: login_fst f f')
qed

text \<open>
  Claim C8. \<open>User.create\<close> appends one row, and its password column holds what
  \<open>bcrypt.hash(password, 10)\<close> returned, so the column holds the plaintext only if the
  hash of a password were that password; when the password is not a string nothing is
  stored. No response carries the digest: the answer of
  \<open>register\<close> is the same whatever the hash function returns, and the answer of \<open>login\<close> is
  the same when every stored digest is replaced by another one on which the comparison
  gives the same verdict (and, for a password that is not a string, whatever the digests
  are). A 200 of either carries a token, signed over the id and the
  email only, and \<open>expiresAt\<close>.
\<close>

theorem digest_never_disclosed:
  "users (snd (User_create L name email (Some password) w))
     = (if fst (db_call InsertUser w) then users w @ [new_user L name email password w]
        else users w)
   \<and> u_password (new_user L name email password w) = bcrypt_hash L password 10 (entropy w)
   \<and> (u_password (new_user L name email password w) = password
        \<longleftrightarrow> bcrypt_hash L password 10 (entropy w) = password)
   \<and> users (snd (User_create L name email None w)) = users w
   \<and> fst (register (L\<lparr>bcrypt_hash := h\<rparr>) E name email pw w)
       = fst (register L E name email pw w)
   \<and> ((\<forall>u \<in> set (users w). cmp password (d u) = bcrypt_compare L password (u_password u)) \<longrightarrow>
        fst (login (L\<lparr>bcrypt_compare := cmp\<rparr>) E email (Some password)
               (w\<lparr>users := map (\<lambda>u. u\<lparr>u_password := d u\<rparr>) (users w)\<rparr>))
          = fst (login L E email (Some password) w))
   \<and> fst (login (L\<lparr>bcrypt_compare := cmp\<rparr>) E email None
            (w\<lparr>users := map (\<lambda>u. u\<lparr>u_password := d u\<rparr>) (users w)\<rparr>))
       = fst (login L E email None w)
   \<and> (status (fst (register L E name email (Some password) w)) = 200 \<longrightarrow>
        (\<exists>tok. jwt_sign L \<lparr>c_id = next_user_id w, c_email = email\<rparr> (signing_secret E)
                  (JWT_TTL E) (clock w) = Inr tok
              \<and> fst (register L E name email (Some password) w)
                  = successResponse (DToken tok (expiryDate (clock w) (JWT_TTL E)))
                      default_message))
   \<and> (status (fst (login L E email (Some password) w)) = 200 \<longrightarrow>
        (\<exists>tok (usr :: user_row).
                jwt_sign L \<lparr>c_id = u_id usr, c_email = u_email usr\<rparr> (signing_secret E)
                  (JWT_TTL E) (clock w) = Inr tok
              \<and> fst (login L E email (Some password) w)
                  = successResponse (DToken tok (expiryDate (clock w) (JWT_TTL E)))
                      default_message))"
proof (intro conjI impI)
  show "users (snd (User_create L name email (Some password) w))
     = (if fst (db_call InsertUser w) then users w @ [new_user L name email password w]
        else users w)"
    by (rule User_create_users)
  show "u_password (new_user L name email password w) = bcrypt_hash L password 10 (entropy w)"
    by (simp add: new_user_def)
  show "u_password (new_user L name email password w) = password
        \<longleftrightarrow> bcrypt_hash L password 10 (entropy w) = password"
    by (simp add: new_user_def)
  show "users (snd (User_create L name email None w)) = users w"
    by (simp add: User_create_no_string record_event_def)
  show "fst (register (L\<lparr>bcrypt_hash := h\<rparr>) E name email pw w)
       = fst (register L E name email pw w)"
    by (rule register_ignores_hash)
next
  assume "\<forall>u \<in> set (users w). cmp password (d u) = bcrypt_compare L password (u_password u)"
  then show "fst (login (L\<lparr>bcrypt_compare := cmp\<rparr>) E email (Some password)
               (w\<lparr>users := map (\<lambda>u. u\<lparr>u_password := d u\<rparr>) (users w)\<rparr>))
          = fst (login L E email (Some password) w)"
    by (rule login_digest_hidden)
next
  show "fst (login (L\<lparr>bcrypt_compare := cmp\<rparr>) E email None
            (w\<lparr>users := map (\<lambda>u. u\<lparr>u_password := d u\<rparr>) (users w)\<rparr>))
       = fst (login L E email None w)"
    by (rule login_digest_hidden_no_string)
next
  assume "status (fst (register L E name email (Some password) w)) = 200"
  then show "\<exists>tok. jwt_sign L \<lparr>c_id = next_user_id w, c_email = email\<rparr> (signing_secret E)
                  (JWT_TTL E) (clock w) = Inr tok
              \<and> fst (register L E name email (Some password) w)
                  = successResponse (DToken tok (expiryDate (clock w) (JWT_TTL E)))
                      default_message"
    by (rule register_ok)
next
  assume "status (fst (login L E email (Some password) w)) = 200"
  from login_ok[OF this]
  show "\<exists>tok (usr :: user_row).
                jwt_sign L \<lparr>c_id = u_id usr, c_email = u_email usr\<rparr> (signing_secret E)
                  (JWT_TTL E) (clock w) = Inr tok
              \<and> fst (login L E email (Some password) w)
                  = successResponse (DToken tok (expiryDate (clock w) (JWT_TTL E)))
                      default_message"
    by blast
qed

text \<open>
  The instance: Luigi's row holds the hash of his password; Mario's login answers the same
  when his digest and the comparison are both replaced by another pair that agrees.
\<close>

theorem digest_never_disclosed_witness:
  "users (snd (User_create toy_libs ''Luigi'' ''luigi@test.it'' (Some ''pw456'') world_two))
     = [mario, \<lparr>u_id = 2, u_name = ''Luigi'', u_email = ''luigi@test.it'',
                u_password = ''$2b$pw456'', u_created_at = 1000\<rparr>]
   \<and> fst (login (toy_libs\<lparr>bcrypt_compare := (\<lambda>p h. h = ''#'' @ p)\<rparr>) env_set
            ''mario@test.it'' (Some ''pw123'')
            (world_two\<lparr>users := map (\<lambda>u. u\<lparr>u_password := ''#pw123''\<rparr>) (users world_two)\<rparr>))
     = fst (login toy_libs env_set ''mario@test.it'' (Some ''pw123'') world_two)
   \<and> (\<exists>tok. fst (login toy_libs env_set ''mario@test.it'' (Some ''pw123'') world_two)
        = successResponse (DToken tok (Date 3601000)) default_message)
   \<and> (\<exists>tok. fst (register toy_libs env_set ''Luigi'' ''luigi@test.it'' (Some ''pw456'') world_two)
        = successResponse (DToken tok (Date 3601000)) default_message)"
proof -
  have ins: "fst (db_call InsertUser world_two)"
    by (simp add: db_call_ok world_two_fields)
  have row: "new_user toy_libs ''Luigi'' ''luigi@test.it'' ''pw456'' world_two
      = \<lparr>u_id = 2, u_name = ''Luigi'', u_email = ''luigi@test.it'',
         u_password = ''$2b$pw456'', u_created_at = 1000\<rparr>"
    by (simp add: new_user_def world_two_fields)
  have verdict: "\<forall>u \<in> set (users world_two).
      (\<lambda>p h. h = ''#'' @ p) ''pw123'' ((\<lambda>u. ''#pw123'') u)
        = bcrypt_compare toy_libs ''pw123'' (u_password u)"
    by (simp add: world_two_fields mario_def)
  note T = digest_never_disclosed[where L = toy_libs and E = env_set and w = world_two
      and name = "''Luigi''" and email = "''luigi@test.it''" and password = "''pw456''"]
  note T' = digest_never_disclosed[where L = toy_libs and E = env_set and w = world_two
      and email = "''mario@test.it''" and password = "''pw123''"
      and cmp = "\<lambda>p h. h = ''#'' @ p" and d = "\<lambda>u. ''#pw123''"]
  from T ins
  have a: "users (snd (User_create toy_libs ''Luigi'' ''luigi@test.it'' (Some ''pw456'') world_two))
     = users world_two @ [new_user toy_libs ''Luigi'' ''luigi@test.it'' ''pw456'' world_two]"
    by simp
  from T' verdict
  have b: "fst (login (toy_libs\<lparr>bcrypt_compare := (\<lambda>p h. h = ''#'' @ p)\<rparr>) env_set
            ''mario@test.it'' (Some ''pw123'')
            (world_two\<lparr>users := map (\<lambda>u. u\<lparr>u_password := ''#pw123''\<rparr>) (users world_two)\<rparr>))
     = fst (login toy_libs env_set ''mario@test.it'' (Some ''pw123'') world_two)"
    by blast
  from T' sample_login_status
  have c: "\<exists>tok. fst (login toy_libs env_set ''mario@test.it'' (Some ''pw123'') world_two)
        = successResponse (DToken tok (expiryDate (clock world_two) (JWT_TTL env_set)))
            default_message"
    by blast
  from T sample_register_status
  have d: "\<exists>tok. fst (register toy_libs env_set ''Luigi'' ''luigi@test.it'' (Some ''pw456'') world_two)
        = successResponse (DToken tok (expiryDate (clock world_two) (JWT_TTL env_set)))
            default_message"
    by blast
  from a have a': "users (snd (User_create toy_libs ''Luigi'' ''luigi@test.it'' (Some ''pw456'')
                                   world_two))
     = [mario, \<lparr>u_id = 2, u_name = ''Luigi'', u_email = ''luigi@test.it'',
                u_password = ''$2b$pw456'', u_created_at = 1000\<rparr>]"
    by (simp add: row world_two_fields)
  from a' b c[unfolded sample_expiry] d[unfolded sample_expiry] show ?thesis
    by (intro conjI)
qed

section \<open>Facts about the token the gate reads\<close>

lemma replace_first_prefix: "pat \<noteq> [] \<Longrightarrow> replace_first pat rep (pat @ t) = rep @ t"
  by (cases pat) simp_all

lemma replace_first_absent:
  assumes "x \<in> set pat" "x \<notin> set t"
  shows "replace_first pat rep t = t"
  using assms(2)
proof (induction t)
  case Nil
  then show ?case
    using assms(1) by auto
next
  case (Cons c cs)
  have "\<not> prefix pat (c # cs)"
    using assms(1) Cons.prems set_mono_prefix by fastforce
  then show ?case
    using Cons by simp
qed

lemma strip_bearer: "replace_first ''Bearer '' [] (''Bearer '' @ t) = t"
  using replace_first_prefix[of "''Bearer ''" "[]" t] by simp

lemma strip_nothing: "CHR '' '' \<notin> set t \<Longrightarrow> replace_first ''Bearer '' [] t = t"
  by (rule replace_first_absent[of "CHR '' ''"]) simp_all

lemma gate_present:
  "authMiddleware L E (req\<lparr>authorization := Some h\<rparr>) w =
     (if replace_first ''Bearer '' [] h = []
      then (Respond (errorResponse ''Unauthorized'' 401 None), w)
      else (case jwt_verify L (replace_first ''Bearer '' [] h) (JWT_SECRET E) (clock w) of
              Inr c \<Rightarrow> (Next (req\<lparr>authorization := Some h, user := Some c\<rparr>),
                         record_event JwtVerify w)
            | Inl e \<Rightarrow> (Respond (errorResponse (''Invalid token, TTL:'' @ env_text (JWT_TTL E))
                                     401 (Some e)),
                         record_event JwtVerify w)))"
  by (simp add: authMiddleware_def Let_def record_event_def split: sum.split)

lemma listRoutes_ignores_header:
  "listRoutes (r\<lparr>authorization := a, user := u, path := rest\<rparr>) w
     = listRoutes (r\<lparr>user := u, path := rest\<rparr>) w"
  by (simp add: listRoutes_def getUserLists_def getListById_def createList_def updateList_def
      deleteList_def split: option.split prod.split sum.split list.split)

lemma gate_without_key:
  assumes unset: "JWT_SECRET E = None" and needs_key: "\<forall>t now. isl (jwt_verify L t None now)"
  shows "\<exists>r w1. authMiddleware L E req w = (Respond r, w1) \<and> status r = 401"
proof (cases "authorization req")
  case None
  then show ?thesis
    by (simp add: gate_no_header errorResponse_def)
next
  case (Some h)
  then have req: "req = req\<lparr>authorization := Some h\<rparr>"
    by simp
  from needs_key obtain e where
    "jwt_verify L (replace_first ''Bearer '' [] h) None (clock w) = Inl e"
    by (metis sum.collapse(1))
  then show ?thesis
    by (subst req) (simp add: gate_present unset errorResponse_def)
qed

lemma toy_needs_key: "\<forall>t now. isl (jwt_verify toy_libs t None now)"
  by (simp add: toy_verify_eq toy_verify_def)

section \<open>A garbled header\<close>

text \<open>
  Claim C6, as stated, fails. The header \<open>garbage\<close> is not treated as an absent one: the
  gate hands it to \<open>jwt.verify\<close> (the record of calls shows it) and answers with the
  message \<open>Invalid token, TTL:3600\<close> and the error, where an absent header gets
  \<open>Unauthorized\<close> and no call at all.
\<close>

theorem garbled_header_counterexample:
  "authMiddleware toy_libs env_set (req_lists\<lparr>authorization := Some ''garbage''\<rparr>) world_two
     \<noteq> authMiddleware toy_libs env_set req_lists world_two
   \<and> fst (authMiddleware toy_libs env_set (req_lists\<lparr>authorization := Some ''garbage''\<rparr>)
           world_two)
     = Respond \<lparr>status = 401, body = Failure ''Invalid token, TTL:3600'' (Some JwtError)\<rparr>
   \<and> fst (authMiddleware toy_libs env_set req_lists world_two)
     = Respond \<lparr>status = 401, body = Failure ''Unauthorized'' None\<rparr>
   \<and> log (snd (authMiddleware toy_libs env_set (req_lists\<lparr>authorization := Some ''garbage''\<rparr>)
              world_two)) = [JwtVerify]
   \<and> log (snd (authMiddleware toy_libs env_set req_lists world_two)) = []"
proof -
  have s: "replace_first ''Bearer '' [] ''garbage'' = ''garbage''"
    by simp
  have g: "authMiddleware toy_libs env_set (req_lists\<lparr>authorization := Some ''garbage''\<rparr>)
             world_two
     = (Respond \<lparr>status = 401, body = Failure ''Invalid token, TTL:3600'' (Some JwtError)\<rparr>,
        record_event JwtVerify world_two)"
    unfolding gate_present s
    by (simp add: toy_verify_eq toy_verify_def env_set_def env_text_def errorResponse_def)
  have a: "authMiddleware toy_libs env_set req_lists world_two
     = (Respond \<lparr>status = 401, body = Failure ''Unauthorized'' None\<rparr>, world_two)"
    by (simp add: authMiddleware_def req_lists_def errorResponse_def)
  show ?thesis
    unfolding g a by (simp add: record_event_def world_two_def world_empty_def)
qed

text \<open>
  Claim C6, amended. A header whose token \<open>jwt.verify\<close> refuses is rejected with status
  401, the status an absent header gets. Only a header that is empty once the first
  \<open>Bearer \<close> is removed is treated as an absent one (\<open>Unauthorized\<close>, nothing called).
  Any other is handed to \<open>jwt.verify\<close>, and the answer to its failure is the message
  \<open>Invalid token, TTL:\<close> followed by the configured TTL, with the error attached.
\<close>

theorem garbled_header_rejected:
  assumes garbled: "jwt_verify L (replace_first ''Bearer '' [] h) (JWT_SECRET E) (clock w) = Inl e"
  shows "(\<exists>r w1. authMiddleware L E (req\<lparr>authorization := Some h\<rparr>) w = (Respond r, w1)
                 \<and> status r = 401)
       \<and> (replace_first ''Bearer '' [] h = [] \<longrightarrow>
            authMiddleware L E (req\<lparr>authorization := Some h\<rparr>) w
              = authMiddleware L E (req\<lparr>authorization := None\<rparr>) w)
       \<and> (replace_first ''Bearer '' [] h \<noteq> [] \<longrightarrow>
            authMiddleware L E (req\<lparr>authorization := Some h\<rparr>) w
              = (Respond (errorResponse (''Invalid token, TTL:'' @ env_text (JWT_TTL E)) 401
                            (Some e)),
                 record_event JwtVerify w))
       \<and> authMiddleware L E (req\<lparr>authorization := None\<rparr>) w
           = (Respond (errorResponse ''Unauthorized'' 401 None), w)"
  using garbled
  by (simp add: gate_present errorResponse_def) (simp add: authMiddleware_def errorResponse_def)

theorem garbled_header_rejected_witness:
  "authMiddleware toy_libs env_set (req_lists\<lparr>authorization := Some ''Bearer x y''\<rparr>) world_two
     = (Respond \<lparr>status = 401, body = Failure ''Invalid token, TTL:3600'' (Some JwtError)\<rparr>,
        record_event JwtVerify world_two)
   \<and> authMiddleware toy_libs env_set (req_lists\<lparr>authorization := Some ''Bearer ''\<rparr>) world_two
     = authMiddleware toy_libs env_set (req_lists\<lparr>authorization := None\<rparr>) world_two"
proof -
  have s: "replace_first ''Bearer '' [] ''Bearer x y'' = ''x y''"
    by simp
  have v: "jwt_verify toy_libs (replace_first ''Bearer '' [] ''Bearer x y'') (JWT_SECRET env_set)
             (clock world_two) = Inl JwtError"
    unfolding s by (simp add: toy_verify_eq toy_verify_def env_set_def)
  have ne: "replace_first ''Bearer '' [] ''Bearer x y'' \<noteq> []"
    unfolding s by simp
  have s0: "replace_first ''Bearer '' [] ''Bearer '' = []"
    by simp
  have v0: "jwt_verify toy_libs (replace_first ''Bearer '' [] ''Bearer '') (JWT_SECRET env_set)
             (clock world_two) = Inl JwtError"
    unfolding s0 by (simp add: toy_verify_eq toy_verify_def env_set_def)
  from garbled_header_rejected[OF v, of req_lists] ne
  have a: "authMiddleware toy_libs env_set (req_lists\<lparr>authorization := Some ''Bearer x y''\<rparr>)
          world_two
     = (Respond (errorResponse (''Invalid token, TTL:'' @ env_text (JWT_TTL env_set)) 401
                   (Some JwtError)),
        record_event JwtVerify world_two)"
    by blast
  from garbled_header_rejected[OF v0, of req_lists] s0
  have b: "authMiddleware toy_libs env_set (req_lists\<lparr>authorization := Some ''Bearer ''\<rparr>) world_two
     = authMiddleware toy_libs env_set (req_lists\<lparr>authorization := None\<rparr>) world_two"
    by blast
  from a b show ?thesis
    by (simp add: errorResponse_def env_text_def env_set_def)
qed

section \<open>The Bearer prefix\<close>

text \<open>
  Claim C9. Let \<open>t\<close> be a token \<open>jwt.verify\<close> accepts under the configured secret. A compact
  JWT is not empty and has no blank in it (three base64url segments joined by dots).
  Then the gate accepts the header \<open>t\<close> exactly as it accepts \<open>Bearer t\<close>: in both
  cases it calls \<open>next()\<close> with \<open>req.user\<close> set to the claims of \<open>t\<close>, and the list router
  behind it answers the same. The reason is that removing the first \<open>Bearer \<close> from
  \<open>Bearer t\<close> leaves \<open>t\<close>, and leaves \<open>t\<close> itself as it is.
\<close>

theorem bearer_prefix_optional:
  assumes valid: "jwt_verify L t (JWT_SECRET E) (clock w) = Inr c"
    and nonempty: "t \<noteq> []" and compact: "CHR '' '' \<notin> set t"
  shows "authMiddleware L E (req\<lparr>authorization := Some t\<rparr>) w
           = (Next (req\<lparr>authorization := Some t, user := Some c\<rparr>), record_event JwtVerify w)
       \<and> authMiddleware L E (req\<lparr>authorization := Some (''Bearer '' @ t)\<rparr>) w
           = (Next (req\<lparr>authorization := Some (''Bearer '' @ t), user := Some c\<rparr>),
              record_event JwtVerify w)
       \<and> protected L E listRoutes rest (req\<lparr>authorization := Some t\<rparr>) w
           = protected L E listRoutes rest (req\<lparr>authorization := Some (''Bearer '' @ t)\<rparr>) w
       \<and> replace_first ''Bearer '' [] (''Bearer '' @ t) = t
       \<and> replace_first ''Bearer '' [] t = t"
proof -
  have a: "authMiddleware L E (req\<lparr>authorization := Some t\<rparr>) w
           = (Next (req\<lparr>authorization := Some t, user := Some c\<rparr>), record_event JwtVerify w)"
    unfolding gate_present strip_nothing[OF compact] using valid nonempty by simp
  have b: "authMiddleware L E (req\<lparr>authorization := Some (''Bearer '' @ t)\<rparr>) w
           = (Next (req\<lparr>authorization := Some (''Bearer '' @ t), user := Some c\<rparr>),
              record_event JwtVerify w)"
    unfolding gate_present strip_bearer using valid nonempty by simp
  have r: "\<And>h. listRoutes (req\<lparr>authorization := Some h, user := Some c, path := rest\<rparr>)
                  (record_event JwtVerify w)
               = listRoutes (req\<lparr>user := Some c, path := rest\<rparr>) (record_event JwtVerify w)"
    by (rule listRoutes_ignores_header)
  have p: "protected L E listRoutes rest (req\<lparr>authorization := Some t\<rparr>) w
           = protected L E listRoutes rest (req\<lparr>authorization := Some (''Bearer '' @ t)\<rparr>) w"
    unfolding protected_def a b by (simp add: r)
  from a b p strip_bearer[of t] strip_nothing[OF compact] show ?thesis
    by (intro conjI)
qed

theorem bearer_prefix_optional_witness:
  "fst (authMiddleware toy_libs env_set (req_lists\<lparr>authorization := Some ''k.i.mario@test.it''\<rparr>)
          world_two)
     = Next (req_lists\<lparr>authorization := Some ''k.i.mario@test.it'',
                       user := Some \<lparr>c_id = 1, c_email = ''mario@test.it''\<rparr>\<rparr>)
   \<and> fst (authMiddleware toy_libs env_set
            (req_lists\<lparr>authorization := Some ''Bearer k.i.mario@test.it''\<rparr>) world_two)
     = Next (req_lists\<lparr>authorization := Some ''Bearer k.i.mario@test.it'',
                       user := Some \<lparr>c_id = 1, c_email = ''mario@test.it''\<rparr>\<rparr>)
   \<and> jwt_sign toy_libs \<lparr>c_id = 1, c_email = ''mario@test.it''\<rparr> ''k'' (Some ''3600'') 1000
     = Inr ''k.i.mario@test.it''"
proof -
  have v: "jwt_verify toy_libs ''k.i.mario@test.it'' (JWT_SECRET env_set) (clock world_two)
             = Inr \<lparr>c_id = 1, c_email = ''mario@test.it''\<rparr>"
    by (simp add: toy_verify_eq toy_verify_def env_set_def)
  have n: "''k.i.mario@test.it'' \<noteq> []"
    by simp
  have s: "CHR '' '' \<notin> set ''k.i.mario@test.it''"
    by simp
  have g: "jwt_sign toy_libs \<lparr>c_id = 1, c_email = ''mario@test.it''\<rparr> ''k'' (Some ''3600'') 1000
     = Inr ''k.i.mario@test.it''"
    by (simp add: toy_sign_some)
  note T = bearer_prefix_optional[OF v n s, of req_lists]
  show ?thesis
    using T[THEN conjunct1] T[THEN conjunct2, THEN conjunct1] g by simp
qed

section \<open>An unset secret\<close>

text \<open>
  Claim C10. Let \<open>JWT_SECRET\<close> be unset, and let \<open>jwt.verify\<close> refuse a missing key, as
  jsonwebtoken does. Then \<open>register\<close> and \<open>login\<close> sign with the fallback secret written
  in the controller, while the gate verifies against the unset value: the gate rejects
  every header with status 401, and so the token of every 200 of \<open>register\<close> or \<open>login\<close>,
  sent back as \<open>Bearer\<close> token, is rejected.
\<close>

theorem fallback_secret_mismatch:
  assumes unset: "JWT_SECRET E = None" and needs_key: "\<forall>t now. isl (jwt_verify L t None now)"
  shows "signing_secret E = fallback_secret
       \<and> (status (fst (register L E name email password w)) = 200 \<longrightarrow>
            (\<exists>tok d. jwt_sign L \<lparr>c_id = next_user_id w, c_email = email\<rparr> fallback_secret
                        (JWT_TTL E) (clock w) = Inr tok
                \<and> fst (register L E name email password w)
                    = successResponse (DToken tok d) default_message
                \<and> (\<exists>r w1. authMiddleware L E
                             (req\<lparr>authorization := Some (''Bearer '' @ tok)\<rparr>) w'
                             = (Respond r, w1) \<and> status r = 401)))
       \<and> (status (fst (login L E email password w)) = 200 \<longrightarrow>
            (\<exists>tok d (usr :: user_row).
                  jwt_sign L \<lparr>c_id = u_id usr, c_email = u_email usr\<rparr> fallback_secret
                        (JWT_TTL E) (clock w) = Inr tok
                \<and> fst (login L E email password w)
                    = successResponse (DToken tok d) default_message
                \<and> (\<exists>r w1. authMiddleware L E
                             (req\<lparr>authorization := Some (''Bearer '' @ tok)\<rparr>) w'
                             = (Respond r, w1) \<and> status r = 401)))
       \<and> (\<forall>h. \<exists>r w1. authMiddleware L E (req\<lparr>authorization := h\<rparr>) w' = (Respond r, w1)
                       \<and> status r = 401)"
proof -
  have s: "signing_secret E = fallback_secret"
    using unset by (simp add: signing_secret_def)
  have g: "\<And>h. \<exists>r w1. authMiddleware L E (req\<lparr>authorization := h\<rparr>) w' = (Respond r, w1)
                       \<and> status r = 401"
    by (rule gate_without_key[OF unset needs_key])
  show ?thesis
  proof (intro conjI impI allI)
    show "signing_secret E = fallback_secret"
      by (rule s)
  next
    assume "status (fst (register L E name email password w)) = 200"
    from register_ok[OF this] obtain tok where
      "jwt_sign L \<lparr>c_id = next_user_id w, c_email = email\<rparr> fallback_secret
          (JWT_TTL E) (clock w) = Inr tok"
      "fst (register L E name email password w)
          = successResponse (DToken tok (expiryDate (clock w) (JWT_TTL E))) default_message"
      unfolding s by blast
    with g[of "Some (''Bearer '' @ tok)"]
    show "\<exists>tok d. jwt_sign L \<lparr>c_id = next_user_id w, c_email = email\<rparr> fallback_secret
                        (JWT_TTL E) (clock w) = Inr tok
                \<and> fst (register L E name email password w)
                    = successResponse (DToken tok d) default_message
                \<and> (\<exists>r w1. authMiddleware L E
                             (req\<lparr>authorization := Some (''Bearer '' @ tok)\<rparr>) w'
                             = (Respond r, w1) \<and> status r = 401)"
      by blast
  next
    assume "status (fst (login L E email password w)) = 200"
    from login_ok[OF this] obtain tok and usr :: user_row where
      "jwt_sign L \<lparr>c_id = u_id usr, c_email = u_email usr\<rparr> fallback_secret
          (JWT_TTL E) (clock w) = Inr tok"
      "fst (login L E email password w)
          = successResponse (DToken tok (expiryDate (clock w) (JWT_TTL E))) default_message"
      unfolding s by blast
    with g[of "Some (''Bearer '' @ tok)"]
    show "\<exists>tok d (usr :: user_row).
                  jwt_sign L \<lparr>c_id = u_id usr, c_email = u_email usr\<rparr> fallback_secret
                        (JWT_TTL E) (clock w) = Inr tok
                \<and> fst (login L E email password w)
                    = successResponse (DToken tok d) default_message
                \<and> (\<exists>r w1. authMiddleware L E
                             (req\<lparr>authorization := Some (''Bearer '' @ tok)\<rparr>) w'
                             = (Respond r, w1) \<and> status r = 401)"
      by blast
  next
    fix h
    show "\<exists>r w1. authMiddleware L E (req\<lparr>authorization := h\<rparr>) w' = (Respond r, w1)
                       \<and> status r = 401"
      by (rule g)
  qed
qed

text \<open>
  The instance: the token \<open>register\<close> hands out is one the stand-in library accepts under
  the fallback secret, and the gate, which has no secret, answers 401 to it.
\<close>

theorem fallback_secret_mismatch_witness:
  "(\<exists>tok d. fst (register toy_libs env_unset ''Luigi'' ''luigi@test.it'' (Some ''pw456'') world_two)
               = \<lparr>status = 200,
                  body = Success (DToken tok d) ''Request completed successfully''\<rparr>
           \<and> jwt_sign toy_libs \<lparr>c_id = 2, c_email = ''luigi@test.it''\<rparr>
               ''dsfsdfdsfsfdsf4332432432432432432'' (Some ''3600'') 1000 = Inr tok
           \<and> (\<exists>r w1. authMiddleware toy_libs env_unset
                  (req_lists\<lparr>authorization := Some (''Bearer '' @ tok)\<rparr>) world_two
                    = (Respond r, w1) \<and> status r = 401))
   \<and> (\<exists>tok d. fst (login toy_libs env_unset ''mario@test.it'' (Some ''pw123'') world_two)
               = \<lparr>status = 200,
                  body = Success (DToken tok d) ''Request completed successfully''\<rparr>
           \<and> (\<exists>r w1. authMiddleware toy_libs env_unset
                  (req_lists\<lparr>authorization := Some (''Bearer '' @ tok)\<rparr>) world_two
                    = (Respond r, w1) \<and> status r = 401))
   \<and> jwt_sign toy_libs \<lparr>c_id = 2, c_email = ''luigi@test.it''\<rparr>
        ''dsfsdfdsfsfdsf4332432432432432432'' (Some ''3600'') 1000
       = Inr ''dsfsdfdsfsfdsf4332432432432432432.ii.luigi@test.it''
   \<and> jwt_verify toy_libs ''dsfsdfdsfsfdsf4332432432432432432.ii.luigi@test.it''
        (Some fallback_secret) 1000 = Inr \<lparr>c_id = 2, c_email = ''luigi@test.it''\<rparr>"
proof -
  have un: "JWT_SECRET env_unset = None"
    by (simp add: env_unset_def)
  note T = fallback_secret_mismatch[OF un toy_needs_key, where req = req_lists
      and w' = world_two and w = world_two]
  from T[THEN conjunct2, THEN conjunct1, rule_format, OF sample_register_status_unset]
  have a: "\<exists>tok d. fst (register toy_libs env_unset ''Luigi'' ''luigi@test.it'' (Some ''pw456'')
                         world_two)
               = \<lparr>status = 200,
                  body = Success (DToken tok d) ''Request completed successfully''\<rparr>
           \<and> jwt_sign toy_libs \<lparr>c_id = 2, c_email = ''luigi@test.it''\<rparr>
               ''dsfsdfdsfsfdsf4332432432432432432'' (Some ''3600'') 1000 = Inr tok
           \<and> (\<exists>r w1. authMiddleware toy_libs env_unset
                  (req_lists\<lparr>authorization := Some (''Bearer '' @ tok)\<rparr>) world_two
                    = (Respond r, w1) \<and> status r = 401)"
    by (simp add: successResponse_def default_message_def world_two_fields fallback_secret_def
        ttl_3600) blast
  from T[THEN conjunct2, THEN conjunct2, THEN conjunct1, rule_format,
      OF sample_login_status_unset]
  have b: "\<exists>tok d. fst (login toy_libs env_unset ''mario@test.it'' (Some ''pw123'') world_two)
               = \<lparr>status = 200,
                  body = Success (DToken tok d) ''Request completed successfully''\<rparr>
           \<and> (\<exists>r w1. authMiddleware toy_libs env_unset
                  (req_lists\<lparr>authorization := Some (''Bearer '' @ tok)\<rparr>) world_two
                    = (Respond r, w1) \<and> status r = 401)"
    by (simp add: successResponse_def default_message_def) blast
  have g: "jwt_sign toy_libs \<lparr>c_id = 2, c_email = ''luigi@test.it''\<rparr>
        ''dsfsdfdsfsfdsf4332432432432432432'' (Some ''3600'') 1000
       = Inr ''dsfsdfdsfsfdsf4332432432432432432.ii.luigi@test.it''"
    by (simp add: toy_sign_some eval_nat_numeral)
  have v: "jwt_verify toy_libs ''dsfsdfdsfsfdsf4332432432432432432.ii.luigi@test.it''
        (Some fallback_secret) 1000 = Inr \<lparr>c_id = 2, c_email = ''luigi@test.it''\<rparr>"
    by (simp add: toy_verify_eq toy_verify_def fallback_secret_def)
  from a b g v show ?thesis
    by (intro conjI)
qed

end
